theory Spec2Isabelle
  imports Complex_Main
begin

section \<open>Formatting utilities (frontend/src/utils/format.js)\<close>

subsection \<open>JavaScript values reaching the formatters\<close>

text \<open>
  A JavaScript number is NaN, an infinity, negative zero or a finite value. A finite double
  denotes a rational number and is modelled by that rational; rounding a decimal literal to
  the nearest double and overflow to an infinity are not modelled.
\<close>

datatype jsnum = NaN | PosInf | NegInf | NegZero | Fin rat

text \<open>
  The primitive values of the language. Objects are left out: their coercion to a number
  runs the object's own \<^verbatim>\<open>valueOf\<close>/\<^verbatim>\<open>toString\<close>.
\<close>

datatype jsval = JUndefined | JNull | JBool bool | JNum jsnum | JStr string | JBigInt int | JSymbol

datatype js_error = TypeError | RangeError

subsection \<open>The platform's \<^verbatim>\<open>Number(value)\<close>\<close>

text \<open>
  String to number conversion (ECMA-262, StringToNumber): white space is trimmed, the empty
  string is \<open>+0\<close>, then a signed decimal literal (digits, optional fraction, optional
  exponent, or \<^verbatim>\<open>Infinity\<close>) or an unsigned binary, octal or hexadecimal integer
  literal; anything else is NaN. Strings are byte strings here, so only the ASCII white
  space characters are recognised.
\<close>

definition is_ws :: "char \<Rightarrow> bool" where
  "is_ws c = (c \<in> set [CHR 0x09, CHR 0x0A, CHR 0x0B, CHR 0x0C, CHR 0x0D, CHR 0x20])"

definition trim_ws :: "string \<Rightarrow> string" where
  "trim_ws s = rev (dropWhile is_ws (rev (dropWhile is_ws s)))"

definition radix_digit :: "char \<Rightarrow> nat option" where
  "radix_digit c = map_of (zip ''0123456789abcdef'' [0 ..< 16] @ zip ''ABCDEF'' [10 ..< 16]) c"

definition is_radix_digit :: "nat \<Rightarrow> char \<Rightarrow> bool" where
  "is_radix_digit b c = (case radix_digit c of None \<Rightarrow> False | Some d \<Rightarrow> d < b)"

definition is_digit :: "char \<Rightarrow> bool" where
  "is_digit c = is_radix_digit 10 c"

definition digits_value :: "nat \<Rightarrow> string \<Rightarrow> nat" where
  "digits_value b ds = foldl (\<lambda>a c. b * a + (case radix_digit c of None \<Rightarrow> 0 | Some d \<Rightarrow> d)) 0 ds"

definition parse_exponent :: "string \<Rightarrow> int option" where
  "parse_exponent s =
     (case s of
        [] \<Rightarrow> Some 0
      | c # r \<Rightarrow>
          if c = CHR ''e'' \<or> c = CHR ''E'' then
            (let (neg, ds) = (case r of
                                [] \<Rightarrow> (False, [])
                              | d # r' \<Rightarrow> if d = CHR ''-'' then (True, r')
                                          else if d = CHR ''+'' then (False, r') else (False, r))
             in if ds \<noteq> [] \<and> list_all is_digit ds
                then Some (if neg then - int (digits_value 10 ds) else int (digits_value 10 ds))
                else None)
          else None)"

definition scale10 :: "nat \<Rightarrow> int \<Rightarrow> rat" where
  "scale10 m k = (if 0 \<le> k then of_nat m * 10 ^ nat k else of_nat m / 10 ^ nat (- k))"

definition parse_unsigned_decimal :: "string \<Rightarrow> jsnum option" where
  "parse_unsigned_decimal s =
     (if s = ''Infinity'' then Some PosInf
      else
        let ip = takeWhile is_digit s; r1 = dropWhile is_digit s
        in (case r1 of
              [] \<Rightarrow> if ip = [] then None else Some (Fin (scale10 (digits_value 10 ip) 0))
            | c # t \<Rightarrow>
                if c = CHR ''.'' then
                  (let fp = takeWhile is_digit t; r2 = dropWhile is_digit t
                   in if ip = [] \<and> fp = [] then None
                      else (case parse_exponent r2 of
                              None \<Rightarrow> None
                            | Some e \<Rightarrow>
                                Some (Fin (scale10 (digits_value 10 (ip @ fp))
                                             (e - int (length fp))))))
                else if ip = [] then None
                else (case parse_exponent r1 of
                        None \<Rightarrow> None
                      | Some e \<Rightarrow> Some (Fin (scale10 (digits_value 10 ip) e)))))"

definition parse_non_decimal :: "string \<Rightarrow> jsnum option" where
  "parse_non_decimal s =
     (case s of
        z # x # ds \<Rightarrow>
          (let b = (if x = CHR ''x'' \<or> x = CHR ''X'' then 16
                    else if x = CHR ''o'' \<or> x = CHR ''O'' then 8
                    else if x = CHR ''b'' \<or> x = CHR ''B'' then 2 else (0::nat))
           in if z = CHR ''0'' \<and> 0 < b \<and> ds \<noteq> [] \<and> list_all (is_radix_digit b) ds
              then Some (Fin (of_nat (digits_value b ds))) else None)
      | _ \<Rightarrow> None)"

fun negate :: "jsnum \<Rightarrow> jsnum" where
  "negate NaN = NaN"
| "negate PosInf = NegInf"
| "negate NegInf = PosInf"
| "negate NegZero = Fin 0"
| "negate (Fin r) = (if r = 0 then NegZero else Fin (- r))"

definition signed_decimal :: "string \<Rightarrow> jsnum option" where
  "signed_decimal t =
     (case t of
        [] \<Rightarrow> None
      | c # u \<Rightarrow>
          if c = CHR ''-'' then map_option negate (parse_unsigned_decimal u)
          else if c = CHR ''+'' then parse_unsigned_decimal u
          else parse_unsigned_decimal t)"

definition StringToNumber :: "string \<Rightarrow> jsnum" where
  "StringToNumber s =
     (let t = trim_ws s
      in if t = [] then Fin 0
         else (case parse_non_decimal t of
                 Some n \<Rightarrow> n
               | None \<Rightarrow> (case signed_decimal t of Some n \<Rightarrow> n | None \<Rightarrow> NaN)))"

text \<open>
  \<^verbatim>\<open>Number(value)\<close> called as a function: ToNumeric, with a BigInt converted to its
  number value; a Symbol raises TypeError.
\<close>

fun js_Number :: "jsval \<Rightarrow> js_error + jsnum" where
  "js_Number JUndefined = Inr NaN"
| "js_Number JNull = Inr (Fin 0)"
| "js_Number (JBool b) = Inr (Fin (if b then 1 else 0))"
| "js_Number (JNum n) = Inr n"
| "js_Number (JStr s) = Inr (StringToNumber s)"
| "js_Number (JBigInt i) = Inr (Fin (of_int i))"
| "js_Number JSymbol = Inl TypeError"

definition Number_isNaN :: "jsnum \<Rightarrow> bool" where
  "Number_isNaN n = (n = NaN)"

subsection \<open>The platform's \<^verbatim>\<open>Intl.NumberFormat('en-US', ...)\<close>\<close>

text \<open>
  Decimal style, grouping by thousands with a comma, rounding half away from zero to the
  maximum number of fraction digits, trailing zeros removed down to the minimum number of
  fraction digits, a minus sign for negative values including negative zero (ECMA-402).
\<close>

definition round_half_expand :: "rat \<Rightarrow> nat" where
  "round_half_expand q = nat \<lfloor>q + 1 / 2\<rfloor>"

definition digit_char :: "nat \<Rightarrow> char" where
  "digit_char d = ''0123456789'' ! d"

fun digits_of :: "nat \<Rightarrow> string" where
  "digits_of n = (if n < 10 then [digit_char n] else digits_of (n div 10) @ [digit_char (n mod 10)])"

declare digits_of.simps [simp del]

fun group_rev :: "string \<Rightarrow> string" where
  "group_rev (a # b # c # d # rest) = a # b # c # CHR '','' # group_rev (d # rest)"
| "group_rev ds = ds"

definition grouped :: "string \<Rightarrow> string" where
  "grouped ds = rev (group_rev (rev ds))"

fun strip_rev :: "nat \<Rightarrow> string \<Rightarrow> string" where
  "strip_rev k rs =
     (if k = 0 then rs
      else (case rs of
              [] \<Rightarrow> []
            | c # rs' \<Rightarrow> if c = CHR ''0'' then strip_rev (k - 1) rs' else rs))"

declare strip_rev.simps [simp del]

function pad_left :: "nat \<Rightarrow> string \<Rightarrow> string" where
  "pad_left k ds = (if length ds < k then pad_left k (CHR ''0'' # ds) else ds)"
  by pat_completeness auto
termination
  by (relation "measure (\<lambda>(k, ds). k - length ds)") auto

declare pad_left.simps [simp del]

definition fraction_digits :: "nat \<Rightarrow> nat \<Rightarrow> nat \<Rightarrow> string" where
  "fraction_digits minFD maxFD f =
     rev (strip_rev (maxFD - minFD) (rev (pad_left maxFD (digits_of f))))"

definition format_magnitude :: "nat \<Rightarrow> nat \<Rightarrow> rat \<Rightarrow> string" where
  "format_magnitude minFD maxFD q =
     (let n = round_half_expand (q * 10 ^ maxFD);
          ip = grouped (digits_of (n div 10 ^ maxFD));
          fp = (if maxFD = 0 then [] else fraction_digits minFD maxFD (n mod 10 ^ maxFD))
      in if fp = [] then ip else ip @ CHR ''.'' # fp)"

definition infinity_sign :: string where
  "infinity_sign = [CHR 0xE2, CHR 0x88, CHR 0x9E]"

fun en_US_format :: "nat \<Rightarrow> nat \<Rightarrow> jsnum \<Rightarrow> string" where
  "en_US_format minFD maxFD NaN = ''NaN''"
| "en_US_format minFD maxFD PosInf = infinity_sign"
| "en_US_format minFD maxFD NegInf = CHR ''-'' # infinity_sign"
| "en_US_format minFD maxFD NegZero = CHR ''-'' # format_magnitude minFD maxFD 0"
| "en_US_format minFD maxFD (Fin r) =
     (if r < 0 then CHR ''-'' # format_magnitude minFD maxFD (- r)
      else format_magnitude minFD maxFD r)"

text \<open>
  The constructor rejects fraction-digit settings outside \<open>0..100\<close> and a minimum above
  the maximum with a RangeError.
\<close>

definition NumberFormat :: "nat \<Rightarrow> nat \<Rightarrow> js_error + (jsnum \<Rightarrow> string)" where
  "NumberFormat minFD maxFD =
     (if 100 < minFD \<or> 100 < maxFD \<or> maxFD < minFD then Inl RangeError
      else Inr (en_US_format minFD maxFD))"

subsection \<open>The formatters\<close>

text \<open>The module-level formatters \<^verbatim>\<open>numberFormatter\<close> (2..2) and \<^verbatim>\<open>priceFormatter\<close> (2..4).\<close>

definition numberFormatter :: "jsnum \<Rightarrow> string" where
  "numberFormatter = en_US_format 2 2"

definition priceFormatter :: "jsnum \<Rightarrow> string" where
  "priceFormatter = en_US_format 2 4"

text \<open>
  The guard shared by the formatters:
  \<^verbatim>\<open>value === null || value === undefined || Number.isNaN(Number(value))\<close>,
  evaluated left to right, so \<^verbatim>\<open>Number\<close> is not called on null or undefined.
\<close>

definition not_available :: "jsval \<Rightarrow> js_error + bool" where
  "not_available v =
     (if v = JNull \<or> v = JUndefined then Inr True
      else (case js_Number v of Inl e \<Rightarrow> Inl e | Inr n \<Rightarrow> Inr (Number_isNaN n)))"

definition formatCurrency :: "jsval \<Rightarrow> js_error + string" where
  "formatCurrency v =
     (case not_available v of
        Inl e \<Rightarrow> Inl e
      | Inr na \<Rightarrow>
          if na then Inr ''N/A''
          else (case js_Number v of
                  Inl e \<Rightarrow> Inl e
                | Inr n \<Rightarrow> Inr (CHR ''$'' # numberFormatter n)))"

text \<open>
  The options of \<^verbatim>\<open>formatNumber\<close>: the two keys its callers pass; \<open>None\<close> is a key
  that is not given, and the spread \<^verbatim>\<open>{min: 2, max: 2, ...options}\<close> lets a given key win.
\<close>

record format_options =
  minimumFractionDigits :: "nat option"
  maximumFractionDigits :: "nat option"

definition no_options :: format_options where
  "no_options = \<lparr>minimumFractionDigits = None, maximumFractionDigits = None\<rparr>"

definition formatNumber :: "jsval \<Rightarrow> format_options \<Rightarrow> js_error + string" where
  "formatNumber v opts =
     (case not_available v of
        Inl e \<Rightarrow> Inl e
      | Inr na \<Rightarrow>
          if na then Inr ''N/A''
          else (case NumberFormat
                       (case minimumFractionDigits opts of None \<Rightarrow> 2 | Some m \<Rightarrow> m)
                       (case maximumFractionDigits opts of None \<Rightarrow> 2 | Some m \<Rightarrow> m) of
                  Inl e \<Rightarrow> Inl e
                | Inr formatter \<Rightarrow>
                    (case js_Number v of Inl e \<Rightarrow> Inl e | Inr n \<Rightarrow> Inr (formatter n))))"

definition formatPrice :: "jsval \<Rightarrow> js_error + string" where
  "formatPrice v =
     (case not_available v of
        Inl e \<Rightarrow> Inl e
      | Inr na \<Rightarrow>
          if na then Inr ''N/A''
          else (case js_Number v of
                  Inl e \<Rightarrow> Inl e
                | Inr n \<Rightarrow> Inr (priceFormatter n)))"

definition formatPercentage :: "jsval \<Rightarrow> js_error + string" where
  "formatPercentage v =
     (case not_available v of
        Inl e \<Rightarrow> Inl e
      | Inr na \<Rightarrow>
          if na then Inr ''N/A''
          else (case formatNumber v
                       \<lparr>minimumFractionDigits = Some 2, maximumFractionDigits = Some 2\<rparr> of
                  Inl e \<Rightarrow> Inl e
                | Inr s \<Rightarrow> Inr (s @ ''%'')))"

text \<open>The wording of the specification: the input is a finite number.\<close>

fun is_finite_number :: "jsval \<Rightarrow> bool" where
  "is_finite_number (JNum (Fin r)) = True"
| "is_finite_number (JNum NegZero) = True"
| "is_finite_number v = False"

section \<open>Synchronization engine (frontend/src/hooks/useWalletData.js)\<close>

subsection \<open>What the API client delivers (frontend/src/api/client.js)\<close>

text \<open>
  A request either rejects with an error or fulfils with the decoded body. The error's
  \<^verbatim>\<open>message\<close> is \<open>None\<close> when the thrown value carries none. A body is \<open>None\<close> when
  \<^verbatim>\<open>request\<close> returns \<^verbatim>\<open>null\<close> (status 204).
\<close>

datatype failure = Failure (message: "string option")

datatype 'a settled = Fulfilled 'a | Rejected failure

record wallets_response =
  resp_wallets :: "string list option"

record 'f fills_response =
  items :: "'f list option"

text \<open>\<^verbatim>\<open>err.message || fallback\<close>: an absent or empty message is falsy.\<close>

definition message_or :: "failure \<Rightarrow> string \<Rightarrow> string" where
  "message_or err fallback =
     (case message err of None \<Rightarrow> fallback | Some m \<Rightarrow> if m = [] then fallback else m)"

text \<open>
  Reading a property of \<^verbatim>\<open>null\<close> throws a TypeError; the text of its message is the
  engine's own (here V8's) and is never empty.
\<close>

definition null_property_error :: "string \<Rightarrow> failure" where
  "null_property_error p =
     Failure (Some (''Cannot read properties of null (reading '' @ [CHR 0x27] @ p @ [CHR 0x27] @ '')''))"

text \<open>
  \<^verbatim>\<open>Promise.all([fetchWalletSummary(address), fetchWalletFills(address, 50)])\<close>: fulfils
  with both bodies, or rejects with the rejection that happened first.
\<close>

datatype fetch_order = SummaryFirst | FillsFirst

fun promise_all :: "fetch_order \<Rightarrow> 'a settled \<Rightarrow> 'b settled \<Rightarrow> failure + ('a \<times> 'b)" where
  "promise_all ord (Fulfilled a) (Fulfilled b) = Inr (a, b)"
| "promise_all ord (Rejected e) (Fulfilled b) = Inl e"
| "promise_all ord (Fulfilled a) (Rejected e) = Inl e"
| "promise_all ord (Rejected e1) (Rejected e2) = Inl (if ord = SummaryFirst then e1 else e2)"

subsection \<open>The state of the hook\<close>

text \<open>
  The six \<^verbatim>\<open>useState\<close> cells, and what the runtime holds for the hook: the interval
  timer set by the selection effect (with the address its callback closes over and the time
  it is next due), the time, and the requests in flight. The summary and a fill are opaque
  to the hook (\<open>'s\<close>, \<open>'f\<close>); a \<^verbatim>\<open>null\<close> summary is \<open>None\<close>.
\<close>

definition REFRESH_INTERVAL :: nat where
  "REFRESH_INTERVAL = 15000"

record interval =
  target :: string
  due :: nat

record ('s, 'f) engine =
  wallets :: "string list"
  selectedWallet :: string
  summary :: "'s option"
  fills :: "'f list"
  loading :: bool
  error :: string
  clock :: nat
  timer :: "interval option"
  walletFetches :: nat
  dataFetches :: "string list"

text \<open>The first render: the initial cells, and the mount effect has called \<^verbatim>\<open>loadWallets\<close>.\<close>

definition mount :: "('s, 'f) engine" where
  "mount = \<lparr>wallets = [], selectedWallet = [], summary = None, fills = [], loading = False,
            error = [], clock = 0, timer = None, walletFetches = 1, dataFetches = []\<rparr>"

text \<open>The Snapshot of the specification: the four cells a poll cycle writes.\<close>

record ('s, 'f) snapshot =
  snap_summary :: "'s option"
  snap_fills :: "'f list"
  snap_loading :: bool
  snap_error :: string

definition snapshot_of :: "('s, 'f) engine \<Rightarrow> ('s, 'f) snapshot" where
  "snapshot_of s = \<lparr>snap_summary = summary s, snap_fills = fills s,
                     snap_loading = loading s, snap_error = error s\<rparr>"

subsection \<open>\<^verbatim>\<open>loadData\<close>\<close>

text \<open>
  Up to the \<^verbatim>\<open>await\<close>: an empty address resets summary and fills and returns; otherwise
  loading is set, error cleared and the two requests are issued.
\<close>

definition loadData_begin :: "string \<Rightarrow> ('s, 'f) engine \<Rightarrow> ('s, 'f) engine" where
  "loadData_begin address s =
     (if address = [] then s\<lparr>summary := None, fills := []\<rparr>
      else s\<lparr>loading := True, error := [], dataFetches := dataFetches s @ [address]\<rparr>)"

text \<open>
  After the \<^verbatim>\<open>await\<close>, run to completion: on fulfilment \<^verbatim>\<open>setSummary\<close>, then
  \<^verbatim>\<open>setFills(fillsResponse.items || [])\<close>, which throws inside the \<^verbatim>\<open>try\<close> when the
  fills body is \<^verbatim>\<open>null\<close>; \<^verbatim>\<open>catch\<close> sets the error; \<^verbatim>\<open>finally\<close> clears loading.
  The setter calls of one continuation run without a suspension point between them and are
  applied in one render, so they are one update of the state here.
\<close>

definition loadData_settle ::
    "failure + ('s option \<times> 'f fills_response option) \<Rightarrow> ('s, 'f) engine \<Rightarrow> ('s, 'f) engine" where
  "loadData_settle outcome s =
     (case outcome of
        Inl err \<Rightarrow> s\<lparr>error := message_or err ''Failed to load wallet data'', loading := False\<rparr>
      | Inr (summaryResponse, fillsResponse) \<Rightarrow>
          (case fillsResponse of
             None \<Rightarrow>
               s\<lparr>summary := summaryResponse,
                 error := message_or (null_property_error ''items'') ''Failed to load wallet data'',
                 loading := False\<rparr>
           | Some fr \<Rightarrow>
               s\<lparr>summary := summaryResponse,
                 fills := (case items fr of None \<Rightarrow> [] | Some xs \<Rightarrow> xs),
                 loading := False\<rparr>))"

subsection \<open>The selection effect\<close>

text \<open>
  The effect depending on \<^verbatim>\<open>selectedWallet\<close>: its cleanup clears the interval of the
  previous selection; with an empty selection it returns at once; otherwise it calls
  \<^verbatim>\<open>loadData\<close> and sets an interval that calls \<^verbatim>\<open>loadData\<close> for that address.
\<close>

definition selection_effect :: "('s, 'f) engine \<Rightarrow> ('s, 'f) engine" where
  "selection_effect s =
     (if selectedWallet s = [] then s\<lparr>timer := None\<rparr>
      else (loadData_begin (selectedWallet s) s)
             \<lparr>timer := Some \<lparr>target = selectedWallet s, due = clock s + REFRESH_INTERVAL\<rparr>\<rparr>)"

text \<open>
  \<^verbatim>\<open>setSelectedWallet\<close>: the state setter itself, exposed unchanged by the hook. Setting
  the value the cell already holds re-runs no effect.
\<close>

definition set_selected :: "string \<Rightarrow> ('s, 'f) engine \<Rightarrow> ('s, 'f) engine" where
  "set_selected a s =
     (if a = selectedWallet s then s else selection_effect (s\<lparr>selectedWallet := a\<rparr>))"

subsection \<open>\<^verbatim>\<open>loadWallets\<close>\<close>

text \<open>The updater passed to \<^verbatim>\<open>setSelectedWallet\<close>; \<^verbatim>\<open>list[0] || ''\<close> at the end.\<close>

definition reconcile :: "string list \<Rightarrow> string \<Rightarrow> string" where
  "reconcile list current =
     (if current \<noteq> [] \<and> current \<in> set list then current
      else (case list of [] \<Rightarrow> [] | w # _ \<Rightarrow> if w = [] then [] else w))"

definition loadWallets_settle ::
    "wallets_response option settled \<Rightarrow> ('s, 'f) engine \<Rightarrow> ('s, 'f) engine" where
  "loadWallets_settle r s =
     (case r of
        Rejected err \<Rightarrow> s\<lparr>error := message_or err ''Failed to load wallets''\<rparr>
      | Fulfilled None \<Rightarrow>
          s\<lparr>error := message_or (null_property_error ''wallets'') ''Failed to load wallets''\<rparr>
      | Fulfilled (Some response) \<Rightarrow>
          (let list = (case resp_wallets response of None \<Rightarrow> [] | Some l \<Rightarrow> l);
               s1 = s\<lparr>wallets := list\<rparr>
           in set_selected (reconcile list (selectedWallet s1)) s1))"

subsection \<open>What can happen to a mounted hook\<close>

text \<open>
  \<open>ReloadWallets\<close>, \<open>SetSelectedWallet\<close> and \<open>Refresh\<close> are the functions the hook returns;
  \<open>WalletsSettled\<close> and \<open>DataSettled\<close> are continuations of requests in flight; \<open>Elapse\<close>
  lets time pass and \<open>Tick\<close> is the interval's callback, which runs no earlier than it is due.
  A step is \<open>None\<close> when the event cannot happen in that state.
\<close>

datatype ('s, 'f) event =
    ReloadWallets
  | WalletsSettled "wallets_response option settled"
  | SetSelectedWallet string
  | Refresh
  | Elapse nat
  | Tick
  | DataSettled string fetch_order "'s option settled" "'f fills_response option settled"

definition refresh :: "('s, 'f) engine \<Rightarrow> ('s, 'f) engine" where
  "refresh s = loadData_begin (selectedWallet s) s"

definition tick :: "('s, 'f) engine \<Rightarrow> ('s, 'f) engine option" where
  "tick s =
     (case timer s of
        None \<Rightarrow> None
      | Some t \<Rightarrow>
          if due t \<le> clock s
          then Some (loadData_begin (target t) (s\<lparr>timer := Some (t\<lparr>due := due t + REFRESH_INTERVAL\<rparr>)\<rparr>))
          else None)"

fun step :: "('s, 'f) event \<Rightarrow> ('s, 'f) engine \<Rightarrow> ('s, 'f) engine option" where
  "step ReloadWallets s = Some (s\<lparr>walletFetches := walletFetches s + 1\<rparr>)"
| "step (WalletsSettled r) s =
     (if walletFetches s = 0 then None
      else Some (loadWallets_settle r (s\<lparr>walletFetches := walletFetches s - 1\<rparr>)))"
| "step (SetSelectedWallet a) s = Some (set_selected a s)"
| "step Refresh s = Some (refresh s)"
| "step (Elapse d) s = Some (s\<lparr>clock := clock s + d\<rparr>)"
| "step Tick s = tick s"
| "step (DataSettled a ord sr fr) s =
     (if a \<in> set (dataFetches s)
      then Some (loadData_settle (promise_all ord sr fr) (s\<lparr>dataFetches := remove1 a (dataFetches s)\<rparr>))
      else None)"

fun run :: "('s, 'f) event list \<Rightarrow> ('s, 'f) engine \<Rightarrow> ('s, 'f) engine option" where
  "run [] s = Some s"
| "run (e # es) s = (case step e s of None \<Rightarrow> None | Some s' \<Rightarrow> run es s')"

text \<open>The time at which the interval's callback next runs, if an interval is set.\<close>

definition next_automatic_cycle :: "('s, 'f) engine \<Rightarrow> nat option" where
  "next_automatic_cycle s = map_option due (timer s)"

text \<open>The invariant of the specification: the selection is empty or one of the wallets.\<close>

definition selection_valid :: "('s, 'f) engine \<Rightarrow> bool" where
  "selection_valid s = (selectedWallet s = [] \<or> selectedWallet s \<in> set (wallets s))"

text \<open>The interval, when set, belongs to the current, non-empty selection.\<close>

definition timer_current :: "('s, 'f) engine \<Rightarrow> bool" where
  "timer_current s =
     (case timer s of
        None \<Rightarrow> selectedWallet s = []
      | Some t \<Rightarrow> selectedWallet s \<noteq> [] \<and> target t = selectedWallet s)"

text \<open>
  A run in which every call of the exposed setter passes the empty string or one of the
  wallets held at the time of the call.
\<close>

fun setter_args_valid :: "('s, 'f) event list \<Rightarrow> ('s, 'f) engine \<Rightarrow> bool" where
  "setter_args_valid [] s = True"
| "setter_args_valid (e # es) s =
     ((case e of SetSelectedWallet a \<Rightarrow> a = [] \<or> a \<in> set (wallets s) | _ \<Rightarrow> True) \<and>
      (case step e s of None \<Rightarrow> True | Some s' \<Rightarrow> setter_args_valid es s'))"

subsection \<open>The setter calls of a settling \<^verbatim>\<open>loadData\<close>, one by one\<close>

text \<open>
  The continuation of \<^verbatim>\<open>loadData\<close> does not write the state in one assignment: it calls
  \<^verbatim>\<open>setSummary\<close>, \<^verbatim>\<open>setFills\<close>, \<^verbatim>\<open>setError\<close> and \<^verbatim>\<open>setLoading\<close> one after the other,
  with no \<^verbatim>\<open>await\<close> between them. \<open>settle_calls\<close> lists the calls in the order of the
  \<^verbatim>\<open>try\<close>, \<^verbatim>\<open>catch\<close> and \<^verbatim>\<open>finally\<close> blocks.
\<close>

datatype ('s, 'f) setter_call =
    SetSummary "'s option"
  | SetFills "'f list"
  | SetError string
  | SetLoading bool

fun apply_call :: "('s, 'f) setter_call \<Rightarrow> ('s, 'f) engine \<Rightarrow> ('s, 'f) engine" where
  "apply_call (SetSummary x) s = s\<lparr>summary := x\<rparr>"
| "apply_call (SetFills xs) s = s\<lparr>fills := xs\<rparr>"
| "apply_call (SetError m) s = s\<lparr>error := m\<rparr>"
| "apply_call (SetLoading b) s = s\<lparr>loading := b\<rparr>"

fun apply_calls :: "('s, 'f) setter_call list \<Rightarrow> ('s, 'f) engine \<Rightarrow> ('s, 'f) engine" where
  "apply_calls [] s = s"
| "apply_calls (c # cs) s = apply_calls cs (apply_call c s)"

definition settle_calls ::
    "failure + ('s option \<times> 'f fills_response option) \<Rightarrow> ('s, 'f) setter_call list" where
  "settle_calls outcome =
     (case outcome of
        Inl err \<Rightarrow> [SetError (message_or err ''Failed to load wallet data'')]
      | Inr (summaryResponse, fillsResponse) \<Rightarrow>
          SetSummary summaryResponse #
          (case fillsResponse of
             None \<Rightarrow>
               [SetError (message_or (null_property_error ''items'') ''Failed to load wallet data'')]
           | Some fr \<Rightarrow> [SetFills (case items fr of None \<Rightarrow> [] | Some xs \<Rightarrow> xs)])) @
     [SetLoading False]"

text \<open>
  Which of the states between the calls a consumer of the hook gets to render is decided by
  the React runtime, which is not part of the source, so it is a parameter: a runtime that
  batches renders once, after the last call of the continuation; one that does not renders
  after every call.
\<close>

datatype batching = Batched | Unbatched

fun states_after :: "('s, 'f) setter_call list \<Rightarrow> ('s, 'f) engine \<Rightarrow> ('s, 'f) engine list" where
  "states_after [] s = []"
| "states_after (c # cs) s = apply_call c s # states_after cs (apply_call c s)"

definition rendered ::
    "batching \<Rightarrow> ('s, 'f) setter_call list \<Rightarrow> ('s, 'f) engine \<Rightarrow> ('s, 'f) engine list" where
  "rendered b calls s =
     (case b of
        Unbatched \<Rightarrow> states_after calls s
      | Batched \<Rightarrow> if calls = [] then [] else [apply_calls calls s])"

text \<open>
  The events whose continuation ends in its \<^verbatim>\<open>catch\<close> block and so sets error: a
  rejection, or a fulfilment with a null body where a property of the body is read.
\<close>

fun writes_error :: "('s, 'f) event \<Rightarrow> bool" where
  "writes_error (WalletsSettled (Rejected err)) = True"
| "writes_error (WalletsSettled (Fulfilled None)) = True"
| "writes_error (DataSettled a ord sr fr) =
     (case promise_all ord sr fr of
        Inl err \<Rightarrow> True
      | Inr (x, None) \<Rightarrow> True
      | Inr (x, Some f) \<Rightarrow> False)"
| "writes_error e = False"

lemmas engine_defs = loadData_begin_def loadData_settle_def selection_effect_def set_selected_def
  reconcile_def loadWallets_settle_def refresh_def tick_def message_or_def null_property_error_def
  REFRESH_INTERVAL_def mount_def snapshot_of_def next_automatic_cycle_def settle_calls_def
  rendered_def

section \<open>Evaluation of the formatters\<close>

lemma floor_numeral_div_rat [simp]:
  "\<lfloor>numeral a / numeral b :: rat\<rfloor> = numeral a div numeral b"
  by (metis floor_divide_of_int_eq of_int_numeral)

lemmas fmt_eval = format_magnitude_def round_half_expand_def fraction_digits_def grouped_def
  digits_of.simps digit_char_def strip_rev.simps pad_left.simps numberFormatter_def
  priceFormatter_def infinity_sign_def

lemmas num_eval = StringToNumber_def signed_decimal_def trim_ws_def is_ws_def parse_non_decimal_def
  parse_unsigned_decimal_def parse_exponent_def is_digit_def is_radix_digit_def radix_digit_def
  digits_value_def scale10_def upt_rec

lemmas formatter_defs = formatCurrency_def formatNumber_def formatPrice_def formatPercentage_def
  not_available_def Number_isNaN_def NumberFormat_def no_options_def

section \<open>Facts about the number formatting\<close>

lemma is_digit_iff: "is_digit c \<longleftrightarrow> c \<in> set ''0123456789''"
  by (auto simp: is_digit_def is_radix_digit_def radix_digit_def upt_rec split: if_splits)

lemma digit_char_cases:
  assumes "d < 10"
  shows "digit_char d \<in> set ''0123456789''"
proof -
  have "d \<in> {0, 1, 2, 3, 4, 5, 6, 7, 8, 9}" using assms by auto
  then show ?thesis by (auto simp: digit_char_def)
qed

lemma digits_of_digits: "set (digits_of n) \<subseteq> set ''0123456789''"
proof (induction n rule: digits_of.induct)
  case (1 n)
  show ?case
  proof (cases "n < 10")
    case True
    then show ?thesis
      using digit_char_cases [of n] by (subst digits_of.simps) simp
  next
    case False
    have m: "n mod 10 < 10" by simp
    from False 1 digit_char_cases [OF m] show ?thesis
      by (subst digits_of.simps) simp
  qed
qed

lemma digits_of_nonempty: "digits_of n \<noteq> []"
  by (subst digits_of.simps) simp

lemma set_group_rev: "set (group_rev xs) \<subseteq> insert (CHR '','') (set xs)"
  by (induction xs rule: group_rev.induct) auto

lemma set_grouped: "set (grouped xs) \<subseteq> insert (CHR '','') (set xs)"
  using set_group_rev [of "rev xs"] by (simp add: grouped_def)

lemma set_strip_rev: "set (strip_rev k xs) \<subseteq> set xs"
proof (induction k xs rule: strip_rev.induct)
  case (1 k rs)
  have u: "strip_rev k rs =
     (if k = 0 then rs
      else (case rs of
              [] \<Rightarrow> []
            | c # rs' \<Rightarrow> if c = CHR ''0'' then strip_rev (k - 1) rs' else rs))"
    by (rule strip_rev.simps)
  show ?case
  proof (cases "k = 0")
    case True
    then show ?thesis unfolding u by simp
  next
    case False
    show ?thesis
    proof (cases rs)
      case Nil
      with False show ?thesis unfolding u by simp
    next
      case (Cons c rs')
      show ?thesis
      proof (cases "c = CHR ''0''")
        case True
        have "set (strip_rev (k - 1) rs') \<subseteq> set rs'"
          using "1.IH" [OF False Cons True] .
        with False Cons True show ?thesis
          unfolding u by auto
      next
        case nz: False
        with False Cons show ?thesis unfolding u by simp
      qed
    qed
  qed
qed

lemma set_pad_left: "set (pad_left k ds) \<subseteq> insert (CHR ''0'') (set ds)"
proof (induction k ds rule: pad_left.induct)
  case (1 k ds)
  have u: "pad_left k ds = (if length ds < k then pad_left k (CHR ''0'' # ds) else ds)"
    by (rule pad_left.simps)
  show ?case
  proof (cases "length ds < k")
    case True
    from "1.IH" [OF True] True show ?thesis unfolding u by auto
  next
    case False
    then show ?thesis unfolding u by auto
  qed
qed

lemma set_fraction_digits: "set (fraction_digits mn mx f) \<subseteq> set ''0123456789''"
proof -
  have "set (fraction_digits mn mx f) \<subseteq> set (pad_left mx (digits_of f))"
    using set_strip_rev [of "mx - mn" "rev (pad_left mx (digits_of f))"]
    by (simp add: fraction_digits_def)
  also have "\<dots> \<subseteq> insert (CHR ''0'') (set (digits_of f))"
    by (rule set_pad_left)
  also have "\<dots> \<subseteq> set ''0123456789''"
    using digits_of_digits [of f] by auto
  finally show ?thesis .
qed

lemma set_format_magnitude:
  "set (format_magnitude mn mx q) \<subseteq> insert (CHR '','') (insert (CHR ''.'') (set ''0123456789''))"
proof -
  define S where "S = insert (CHR '','') (insert (CHR ''.'') (set ''0123456789''))"
  have dS: "set ''0123456789'' \<subseteq> S" and cS: "CHR '','' \<in> S" and pS: "CHR ''.'' \<in> S"
    unfolding S_def by blast+
  have a: "set (grouped (digits_of k)) \<subseteq> S" for k
    using set_grouped [of "digits_of k"] digits_of_digits [of k] dS cS by blast
  have b: "set (fraction_digits mn mx k) \<subseteq> S" for k
    using set_fraction_digits [of mn mx k] dS by blast
  have "set (format_magnitude mn mx q) \<subseteq> S"
    unfolding format_magnitude_def Let_def
    using a b pS by (simp split: if_splits)
  then show ?thesis unfolding S_def .
qed

lemma format_magnitude_no_slash: "CHR ''/'' \<notin> set (format_magnitude mn mx q)"
proof -
  have "CHR ''/'' \<notin> insert (CHR '','') (insert (CHR ''.'') (set ''0123456789''))"
    by simp
  then show ?thesis
    using set_format_magnitude [of mn mx q] by blast
qed

lemma en_US_format_no_slash: "CHR ''/'' \<notin> set (en_US_format mn mx n)"
  by (cases n) (simp_all add: infinity_sign_def format_magnitude_no_slash)

lemma en_US_format_not_NA: "en_US_format mn mx n \<noteq> ''N/A''"
proof
  assume "en_US_format mn mx n = ''N/A''"
  then have "CHR ''/'' \<in> set (en_US_format mn mx n)" by simp
  then show False using en_US_format_no_slash by blast
qed

lemma pad_left_two:
  "pad_left 2 [c] = [CHR ''0'', c]" "pad_left 2 [c, d] = [c, d]"
  by (simp_all add: pad_left.simps)

lemma fraction_digits_two:
  assumes "f < 100"
  shows "fraction_digits 2 2 f =
           (if f < 10 then [CHR ''0'', digit_char f] else [digit_char (f div 10), digit_char (f mod 10)])"
proof -
  have s0: "strip_rev 0 xs = xs" for xs by (simp add: strip_rev.simps)
  have d: "f div 10 < 10" using assms by simp
  show ?thesis
    using assms d
    by (simp add: fraction_digits_def s0 digits_of.simps [of f] digits_of.simps [of "f div 10"]
        pad_left_two)
qed

lemma format_magnitude_two:
  "\<exists>ip d1 d2. format_magnitude 2 2 q = grouped ip @ [CHR ''.'', d1, d2] \<and> ip \<noteq> [] \<and>
      list_all is_digit (ip @ [d1, d2])"
proof -
  define n where "n = round_half_expand (q * 10 ^ 2)"
  define f where "f = n mod 10 ^ 2"
  define ip where "ip = digits_of (n div 10 ^ 2)"
  have f: "f < 100" by (simp add: f_def)
  have fd: "f div 10 < 10" "f mod 10 < 10" using f by simp_all
  have fm: "format_magnitude 2 2 q =
      (if fraction_digits 2 2 f = [] then grouped ip else grouped ip @ CHR ''.'' # fraction_digits 2 2 f)"
    unfolding format_magnitude_def Let_def n_def f_def ip_def by simp
  have ip: "ip \<noteq> []" "list_all is_digit ip"
    using digits_of_nonempty digits_of_digits [of "n div 10 ^ 2"]
    unfolding ip_def list_all_iff is_digit_iff by blast+
  have dc: "k < 10 \<Longrightarrow> is_digit (digit_char k)" for k
    using digit_char_cases [of k] unfolding is_digit_iff .
  have z: "is_digit (CHR ''0'')" by (simp add: is_digit_iff)
  show ?thesis
  proof (cases "f < 10")
    case True
    have "fraction_digits 2 2 f = [CHR ''0'', digit_char f]"
      using fraction_digits_two [OF f] True by simp
    then have "format_magnitude 2 2 q = grouped ip @ [CHR ''.'', CHR ''0'', digit_char f]"
      unfolding fm by simp
    moreover have "list_all is_digit (ip @ [CHR ''0'', digit_char f])"
      using ip(2) z dc [OF True] by simp
    ultimately show ?thesis using ip(1) by blast
  next
    case False
    have "fraction_digits 2 2 f = [digit_char (f div 10), digit_char (f mod 10)]"
      using fraction_digits_two [OF f] False by simp
    then have "format_magnitude 2 2 q =
        grouped ip @ [CHR ''.'', digit_char (f div 10), digit_char (f mod 10)]"
      unfolding fm by simp
    moreover have "list_all is_digit (ip @ [digit_char (f div 10), digit_char (f mod 10)])"
      using ip(2) dc [OF fd(1)] dc [OF fd(2)] by simp
    ultimately show ?thesis using ip(1) by blast
  qed
qed

section \<open>The formatters, case by case\<close>

lemma formatCurrency_cases:
  "formatCurrency v =
     (if v = JNull \<or> v = JUndefined then Inr ''N/A''
      else (case js_Number v of
              Inl e \<Rightarrow> Inl e
            | Inr n \<Rightarrow> if n = NaN then Inr ''N/A'' else Inr (CHR ''$'' # en_US_format 2 2 n)))"
  by (simp add: formatCurrency_def not_available_def Number_isNaN_def numberFormatter_def
      split: sum.splits)

lemma formatPrice_cases:
  "formatPrice v =
     (if v = JNull \<or> v = JUndefined then Inr ''N/A''
      else (case js_Number v of
              Inl e \<Rightarrow> Inl e
            | Inr n \<Rightarrow> if n = NaN then Inr ''N/A'' else Inr (en_US_format 2 4 n)))"
  by (simp add: formatPrice_def not_available_def Number_isNaN_def priceFormatter_def
      split: sum.splits)

lemma formatNumber_cases:
  "formatNumber v opts =
     (if v = JNull \<or> v = JUndefined then Inr ''N/A''
      else (case js_Number v of
              Inl e \<Rightarrow> Inl e
            | Inr n \<Rightarrow>
                if n = NaN then Inr ''N/A''
                else (case NumberFormat
                             (case minimumFractionDigits opts of None \<Rightarrow> 2 | Some m \<Rightarrow> m)
                             (case maximumFractionDigits opts of None \<Rightarrow> 2 | Some m \<Rightarrow> m) of
                        Inl e \<Rightarrow> Inl e
                      | Inr formatter \<Rightarrow> Inr (formatter n))))"
  by (simp add: formatNumber_def not_available_def Number_isNaN_def split: sum.splits)

lemma js_Number_total: "v \<noteq> JSymbol \<Longrightarrow> \<exists>n. js_Number v = Inr n"
  by (cases v) simp_all

section \<open>Claims about the formatters\<close>

text \<open>
  Claim C8, as amended. \<^verbatim>\<open>formatCurrency(v)\<close> is \<^verbatim>\<open>"N/A"\<close> exactly when \<open>v\<close> is null or
  undefined or \<^verbatim>\<open>Number(v)\<close> is NaN (the guard tests NaN, not finiteness). It raises for no
  primitive other than a Symbol. Every other input is rendered as a dollar sign followed by
  the en-US rendering of \<^verbatim>\<open>Number(v)\<close> with two fraction digits; for a finite number that
  is an optional minus sign, the grouped integer digits, a point and two digits. In
  particular null gives \<^verbatim>\<open>"N/A"\<close> and 1234.5 gives \<^verbatim>\<open>"$1,234.50"\<close>.
\<close>

theorem formatCurrency_contract:
  "(formatCurrency v = Inr ''N/A'' \<longleftrightarrow> v = JNull \<or> v = JUndefined \<or> js_Number v = Inr NaN) \<and>
   (v \<noteq> JSymbol \<longrightarrow> (\<exists>out. formatCurrency v = Inr out)) \<and>
   (\<forall>n. v \<noteq> JNull \<and> v \<noteq> JUndefined \<and> js_Number v = Inr n \<and> n \<noteq> NaN \<longrightarrow>
      formatCurrency v = Inr (CHR ''$'' # en_US_format 2 2 n)) \<and>
   (\<forall>r. \<exists>ip d1 d2.
      formatCurrency (JNum (Fin r)) =
        Inr (CHR ''$'' # (if r < 0 then ''-'' else []) @ grouped ip @ [CHR ''.'', d1, d2]) \<and>
      ip \<noteq> [] \<and> list_all is_digit (ip @ [d1, d2])) \<and>
   formatCurrency JNull = Inr ''N/A'' \<and>
   formatCurrency (JNum (Fin (2469 / 2))) = Inr ''$1,234.50''"
proof -
  have a: "formatCurrency v = Inr ''N/A'' \<longleftrightarrow> v = JNull \<or> v = JUndefined \<or> js_Number v = Inr NaN"
    by (cases "js_Number v") (auto simp: formatCurrency_cases)
  have b: "v \<noteq> JSymbol \<longrightarrow> (\<exists>out. formatCurrency v = Inr out)"
    using js_Number_total [of v] by (auto simp: formatCurrency_cases)
  have c: "\<forall>n. v \<noteq> JNull \<and> v \<noteq> JUndefined \<and> js_Number v = Inr n \<and> n \<noteq> NaN \<longrightarrow>
      formatCurrency v = Inr (CHR ''$'' # en_US_format 2 2 n)"
    by (simp add: formatCurrency_cases)
  have d: "\<exists>ip d1 d2.
      formatCurrency (JNum (Fin r)) =
        Inr (CHR ''$'' # (if r < 0 then ''-'' else []) @ grouped ip @ [CHR ''.'', d1, d2]) \<and>
      ip \<noteq> [] \<and> list_all is_digit (ip @ [d1, d2])" for r
  proof (cases "r < 0")
    case True
    from format_magnitude_two [of "- r"] obtain ip d1 d2 where
      "format_magnitude 2 2 (- r) = grouped ip @ [CHR ''.'', d1, d2]" "ip \<noteq> []"
      "list_all is_digit (ip @ [d1, d2])" by blast
    with True show ?thesis by (simp add: formatCurrency_cases) blast
  next
    case False
    from format_magnitude_two [of r] obtain ip d1 d2 where
      "format_magnitude 2 2 r = grouped ip @ [CHR ''.'', d1, d2]" "ip \<noteq> []"
      "list_all is_digit (ip @ [d1, d2])" by blast
    with False show ?thesis by (simp add: formatCurrency_cases) blast
  qed
  have e: "formatCurrency JNull = Inr ''N/A''"
    by (simp add: formatCurrency_cases)
  have f: "formatCurrency (JNum (Fin (2469 / 2))) = Inr ''$1,234.50''"
    by (simp add: formatCurrency_cases fmt_eval)
  from a b c d e f show ?thesis by blast
qed

text \<open>The theorem at the string \<^verbatim>\<open>"12.5"\<close>, at \<^verbatim>\<open>"abc"\<close> and at \<^verbatim>\<open>true\<close>.\<close>

theorem formatCurrency_contract_witness:
  "formatCurrency (JStr ''12.5'') = Inr ''$12.50'' \<and>
   formatCurrency (JStr ''abc'') = Inr ''N/A'' \<and>
   formatCurrency (JBool True) = Inr ''$1.00''"
proof -
  have n1: "js_Number (JStr ''12.5'') = Inr (Fin (25 / 2))"
    by (simp add: num_eval)
  have n2: "js_Number (JStr ''abc'') = Inr NaN"
    by (simp add: num_eval)
  have n3: "js_Number (JBool True) = Inr (Fin 1)"
    by simp
  have f1: "en_US_format 2 2 (Fin (25 / 2)) = ''12.50''"
    by (simp add: fmt_eval)
  have f3: "en_US_format 2 2 (Fin 1) = ''1.00''"
    by (simp add: fmt_eval)
  from formatCurrency_contract [of "JStr ''12.5''"] n1 f1
  have a: "formatCurrency (JStr ''12.5'') = Inr ''$12.50''" by simp
  from formatCurrency_contract [of "JStr ''abc''"] n2
  have b: "formatCurrency (JStr ''abc'') = Inr ''N/A''" by simp
  from formatCurrency_contract [of "JBool True"] n3 f3
  have c: "formatCurrency (JBool True) = Inr ''$1.00''" by simp
  from a b c show ?thesis by simp
qed

text \<open>
  Claim C8 as stated fails at \<^verbatim>\<open>Infinity\<close>: it is not a finite number, and the result is a
  dollar sign followed by the infinity sign, not \<^verbatim>\<open>"N/A"\<close>. A Symbol makes the function
  raise.
\<close>

theorem formatCurrency_counterexample:
  "\<not> (formatCurrency (JNum PosInf) = Inr ''N/A'' \<longleftrightarrow>
        JNum PosInf = JNull \<or> JNum PosInf = JUndefined \<or> \<not> is_finite_number (JNum PosInf)) \<and>
   formatCurrency (JNum PosInf) = Inr [CHR ''$'', CHR 0xE2, CHR 0x88, CHR 0x9E] \<and>
   formatCurrency JSymbol = Inl TypeError"
  by (simp add: formatCurrency_cases infinity_sign_def)

text \<open>
  Claim C10. For a string whose coercion \<^verbatim>\<open>Number(s)\<close> is not NaN, \<^verbatim>\<open>formatCurrency\<close>,
  \<^verbatim>\<open>formatNumber\<close> and \<^verbatim>\<open>formatPrice\<close> render the coerced number and do not return
  \<^verbatim>\<open>"N/A"\<close>; the empty string coerces to 0, so \<^verbatim>\<open>formatCurrency("")\<close> is \<^verbatim>\<open>"$0.00"\<close>.
\<close>

theorem string_inputs_are_coerced:
  assumes "js_Number (JStr str) = Inr n" and "\<not> Number_isNaN n"
  shows "formatCurrency (JStr str) = Inr (CHR ''$'' # en_US_format 2 2 n) \<and>
         formatNumber (JStr str) no_options = Inr (en_US_format 2 2 n) \<and>
         formatPrice (JStr str) = Inr (en_US_format 2 4 n) \<and>
         formatCurrency (JStr str) \<noteq> Inr ''N/A'' \<and>
         formatNumber (JStr str) no_options \<noteq> Inr ''N/A'' \<and>
         formatPrice (JStr str) \<noteq> Inr ''N/A'' \<and>
         (\<forall>mn mx. mn \<le> mx \<and> mx \<le> 100 \<longrightarrow>
            formatNumber (JStr str)
              \<lparr>minimumFractionDigits = Some mn, maximumFractionDigits = Some mx\<rparr> =
              Inr (en_US_format mn mx n)) \<and>
         js_Number (JStr []) = Inr (Fin 0) \<and>
         formatCurrency (JStr []) = Inr ''$0.00''"
proof -
  have z0: "StringToNumber [] = Fin 0"
    by (simp add: StringToNumber_def trim_ws_def)
  have z: "js_Number (JStr []) = Inr (Fin 0)"
    by (simp add: z0)
  have zc: "formatCurrency (JStr []) = Inr ''$0.00''"
    by (simp add: formatCurrency_cases z0 fmt_eval)
  from assms z zc show ?thesis
    by (simp add: formatCurrency_cases formatNumber_cases formatPrice_cases Number_isNaN_def
        NumberFormat_def no_options_def en_US_format_not_NA)
qed

text \<open>The theorem at the string \<^verbatim>\<open>" 1234.5 "\<close>.\<close>

theorem string_inputs_are_coerced_witness:
  "formatCurrency (JStr '' 1234.5 '') = Inr ''$1,234.50'' \<and>
   formatNumber (JStr '' 1234.5 '') no_options = Inr ''1,234.50'' \<and>
   formatPrice (JStr '' 1234.5 '') = Inr ''1,234.50'' \<and>
   formatNumber (JStr '' 1234.5 '')
     \<lparr>minimumFractionDigits = Some 0, maximumFractionDigits = Some 0\<rparr> = Inr ''1,235''"
proof -
  have n: "js_Number (JStr '' 1234.5 '') = Inr (Fin (2469 / 2))"
    by (simp add: num_eval)
  have nn: "\<not> Number_isNaN (Fin (2469 / 2))"
    by (simp add: Number_isNaN_def)
  have f1: "en_US_format 2 2 (Fin (2469 / 2)) = ''1,234.50''"
    by (simp add: fmt_eval)
  have f2: "en_US_format 2 4 (Fin (2469 / 2)) = ''1,234.50''"
    by (simp add: fmt_eval)
  have f3: "en_US_format 0 0 (Fin (2469 / 2)) = ''1,235''"
    by (simp add: fmt_eval)
  from string_inputs_are_coerced [OF n nn] f1 f2 f3 show ?thesis
    by simp
qed

section \<open>Frames and invariants of the engine\<close>

lemma set_selected_selection [simp]: "selectedWallet (set_selected a s) = a"
  by (simp add: set_selected_def selection_effect_def loadData_begin_def)

lemma set_selected_wallets [simp]: "wallets (set_selected a s) = wallets s"
  by (simp add: set_selected_def selection_effect_def loadData_begin_def)

lemma set_selected_keeps_fetches:
  "set (dataFetches s) \<subseteq> set (dataFetches (set_selected a s))"
  by (auto simp: set_selected_def selection_effect_def loadData_begin_def)

lemma reconcile_cases:
  "reconcile list current =
     (if current \<noteq> [] \<and> current \<in> set list then current
      else (case list of [] \<Rightarrow> [] | w # _ \<Rightarrow> w))"
  by (simp add: reconcile_def split: list.splits)

lemma reconcile_valid: "reconcile list current = [] \<or> reconcile list current \<in> set list"
  by (auto simp: reconcile_cases split: list.splits)

lemma loadData_begin_frame [simp]:
  "wallets (loadData_begin a s) = wallets s"
  "selectedWallet (loadData_begin a s) = selectedWallet s"
  "timer (loadData_begin a s) = timer s"
  "clock (loadData_begin a s) = clock s"
  "walletFetches (loadData_begin a s) = walletFetches s"
  by (simp_all add: loadData_begin_def)

lemma loadData_begin_nonempty:
  "address \<noteq> [] \<Longrightarrow>
   loadData_begin address s =
     s\<lparr>loading := True, error := [], dataFetches := dataFetches s @ [address]\<rparr>"
  by (simp add: loadData_begin_def)

lemma loadData_settle_frame [simp]:
  "wallets (loadData_settle out s) = wallets s"
  "selectedWallet (loadData_settle out s) = selectedWallet s"
  "timer (loadData_settle out s) = timer s"
  "clock (loadData_settle out s) = clock s"
  "walletFetches (loadData_settle out s) = walletFetches s"
  "dataFetches (loadData_settle out s) = dataFetches s"
  by (simp_all add: loadData_settle_def split: sum.splits option.splits prod.splits)

lemma loadData_settle_failure:
  "loadData_settle (Inl err) t =
     t\<lparr>error := message_or err ''Failed to load wallet data'', loading := False\<rparr>"
  by (simp add: loadData_settle_def)

lemma loadData_settle_success:
  "loadData_settle (Inr (x, Some f)) t =
     t\<lparr>summary := x, fills := (case items f of None \<Rightarrow> [] | Some xs \<Rightarrow> xs), loading := False\<rparr>"
  by (simp add: loadData_settle_def)

lemma promise_all_rejects:
  "(\<exists>e. sr = Rejected e) \<or> (\<exists>e. fr = Rejected e) \<Longrightarrow> \<exists>err. promise_all ord sr fr = Inl err"
  by (cases sr; cases fr) auto

lemma loadWallets_settle_valid:
  "selection_valid (loadWallets_settle (Fulfilled (Some response)) s)"
  using reconcile_valid [of "case resp_wallets response of None \<Rightarrow> [] | Some l \<Rightarrow> l" "selectedWallet s"]
  by (simp add: loadWallets_settle_def selection_valid_def Let_def)

lemma loadWallets_settle_failed:
  "loadWallets_settle (Rejected err) s = s\<lparr>error := message_or err ''Failed to load wallets''\<rparr>"
  "loadWallets_settle (Fulfilled None) s =
     s\<lparr>error := message_or (null_property_error ''wallets'') ''Failed to load wallets''\<rparr>"
  by (simp_all add: loadWallets_settle_def)

lemma step_selection_valid:
  assumes "step e s = Some s'"
    and "selection_valid s"
    and "case e of SetSelectedWallet a \<Rightarrow> a = [] \<or> a \<in> set (wallets s) | _ \<Rightarrow> True"
  shows "selection_valid s'"
proof (cases e)
  case (WalletsSettled r)
  show ?thesis
  proof (cases r)
    case (Fulfilled body)
    show ?thesis
    proof (cases body)
      case None
      with assms WalletsSettled Fulfilled show ?thesis
        by (auto simp: loadWallets_settle_failed selection_valid_def split: if_splits)
    next
      case (Some response)
      with assms WalletsSettled Fulfilled show ?thesis
        by (auto simp: loadWallets_settle_valid split: if_splits)
    qed
  next
    case (Rejected err)
    with assms WalletsSettled show ?thesis
      by (auto simp: loadWallets_settle_failed selection_valid_def split: if_splits)
  qed
next
  case (SetSelectedWallet a)
  with assms show ?thesis by (auto simp: selection_valid_def)
next
  case Tick
  with assms show ?thesis
    by (auto simp: tick_def selection_valid_def split: option.splits if_splits)
next
  case (DataSettled a ord sr fr)
  with assms show ?thesis by (auto simp: selection_valid_def split: if_splits)
qed (use assms in \<open>auto simp: selection_valid_def refresh_def\<close>)

lemma step_timer_current:
  assumes "step e s = Some s'" and "timer_current s"
  shows "timer_current s'"
proof (cases e)
  case (WalletsSettled r)
  with assms show ?thesis
    by (auto simp: loadWallets_settle_def timer_current_def set_selected_def selection_effect_def
        Let_def split: if_splits settled.splits option.splits)
next
  case (SetSelectedWallet a)
  with assms show ?thesis
    by (auto simp: timer_current_def set_selected_def selection_effect_def split: if_splits option.splits)
next
  case Tick
  with assms show ?thesis
    by (auto simp: tick_def timer_current_def split: option.splits if_splits)
next
  case (DataSettled a ord sr fr)
  with assms show ?thesis by (auto simp: timer_current_def split: if_splits option.splits)
qed (use assms in \<open>auto simp: timer_current_def refresh_def split: option.splits\<close>)

lemma run_timer_current:
  "run es s = Some s' \<Longrightarrow> timer_current s \<Longrightarrow> timer_current s'"
proof (induction es arbitrary: s)
  case Nil
  then show ?case by simp
next
  case (Cons e es)
  then show ?case
    by (auto split: option.splits dest: step_timer_current)
qed

lemma run_selection_valid:
  "run es s = Some s' \<Longrightarrow> setter_args_valid es s \<Longrightarrow> selection_valid s \<Longrightarrow> selection_valid s'"
proof (induction es arbitrary: s)
  case Nil
  then show ?case by simp
next
  case (Cons e es)
  from Cons.prems(1) obtain s1 where s1: "step e s = Some s1" "run es s1 = Some s'"
    by (auto split: option.splits)
  from Cons.prems(2) s1(1) have ok: "setter_args_valid es s1"
    and arg: "case e of SetSelectedWallet a \<Rightarrow> a = [] \<or> a \<in> set (wallets s) | _ \<Rightarrow> True"
    by simp_all
  have "selection_valid s1"
    using step_selection_valid [OF s1(1) Cons.prems(3) arg] .
  then show ?case
    using Cons.IH [OF s1(2) ok] by simp
qed

lemma mount_invariants: "selection_valid mount" "timer_current mount"
  by (simp_all add: selection_valid_def timer_current_def mount_def)

lemma loadData_settle_calls:
  "loadData_settle outcome s = apply_calls (settle_calls outcome) s"
  by (simp add: loadData_settle_def settle_calls_def split: sum.splits prod.splits option.splits)

lemma set_selected_error:
  "error (set_selected a s) = error s \<or> error (set_selected a s) = []"
  by (simp add: set_selected_def selection_effect_def loadData_begin_def)

lemma loadData_begin_error:
  "error (loadData_begin a s) = error s \<or> error (loadData_begin a s) = []"
  by (simp add: loadData_begin_def)

lemma step_error_empty:
  assumes "step e s = Some s'" and "\<not> writes_error e" and "error s = []"
  shows "error s' = []"
proof (cases e)
  case ReloadWallets
  with assms show ?thesis by auto
next
  case (WalletsSettled r)
  have "\<exists>response. r = Fulfilled (Some response)"
  proof (cases r)
    case (Fulfilled body)
    with assms(2) WalletsSettled show ?thesis by (cases body) auto
  next
    case (Rejected err)
    with assms(2) WalletsSettled show ?thesis by auto
  qed
  then obtain response where r: "r = Fulfilled (Some response)" by blast
  from assms(1) WalletsSettled r obtain s1 a where
    s': "s' = set_selected a s1" and e1: "error s1 = error s"
    by (auto simp: loadWallets_settle_def Let_def split: if_splits)
  with set_selected_error [of a s1] assms(3) show ?thesis by auto
next
  case (SetSelectedWallet a)
  with assms set_selected_error [of a s] show ?thesis by auto
next
  case Refresh
  with assms loadData_begin_error [of "selectedWallet s" s] show ?thesis
    by (auto simp: refresh_def)
next
  case (Elapse d)
  with assms show ?thesis by auto
next
  case Tick
  from assms(1) Tick obtain t where t: "timer s = Some t"
    and s': "s' = loadData_begin (target t) (s\<lparr>timer := Some (t\<lparr>due := due t + REFRESH_INTERVAL\<rparr>)\<rparr>)"
    by (auto simp: tick_def split: option.splits if_splits)
  with loadData_begin_error [of "target t" "s\<lparr>timer := Some (t\<lparr>due := due t + REFRESH_INTERVAL\<rparr>)\<rparr>"]
    assms(3) show ?thesis by auto
next
  case (DataSettled a ord sr fr)
  with assms(2) obtain x f where o: "promise_all ord sr fr = Inr (x, Some f)"
    by (auto split: sum.splits prod.splits option.splits)
  with assms(1,3) DataSettled show ?thesis
    by (auto simp: loadData_settle_def split: if_splits)
qed

lemma run_error_empty:
  "run es s = Some t \<Longrightarrow> \<forall>e\<in>set es. \<not> writes_error e \<Longrightarrow> error s = [] \<Longrightarrow> error t = []"
proof (induction es arbitrary: s)
  case Nil
  then show ?case by simp
next
  case (Cons e es)
  from Cons.prems(1) obtain s1 where s1: "step e s = Some s1" "run es s1 = Some t"
    by (auto split: option.splits)
  from Cons.prems(2) have ne: "\<not> writes_error e" and rest: "\<forall>e\<in>set es. \<not> writes_error e"
    by simp_all
  have "error s1 = []"
    using step_error_empty [OF s1(1) ne Cons.prems(3)] .
  then show ?case
    using Cons.IH [OF s1(2) rest] by simp
qed

section \<open>Claims about the engine\<close>

text \<open>
  Claim C1, as amended. In every state reached from the first render, the interval (when
  set) belongs to the current selection, so the timer starts cycles for the current selection
  only. A selection change leaves the requests in flight as they are, and a request in
  flight, whether issued for the current selection or for one since superseded, writes when
  it settles: summary, fills and loading on fulfilment, error and loading on rejection. The
  Snapshot therefore shows the cycle that settled last.
\<close>

theorem superseded_fetch_still_writes:
  assumes "run es mount = Some s" and "b \<in> set (dataFetches s)"
  shows "timer_current s \<and>
         set (dataFetches s) \<subseteq> set (dataFetches (set_selected a s)) \<and>
         (\<exists>s'. step (DataSettled b ord sr fr) s = Some s' \<and>
               selectedWallet s' = selectedWallet s \<and>
               (\<forall>x f. sr = Fulfilled x \<and> fr = Fulfilled (Some f) \<longrightarrow>
                  summary s' = x \<and> fills s' = (case items f of None \<Rightarrow> [] | Some xs \<Rightarrow> xs) \<and>
                  loading s' = False \<and> error s' = error s) \<and>
               (\<forall>err. promise_all ord sr fr = Inl err \<longrightarrow>
                  error s' = message_or err ''Failed to load wallet data'' \<and> loading s' = False \<and>
                  summary s' = summary s \<and> fills s' = fills s))"
proof -
  have t: "timer_current s"
    using run_timer_current [OF assms(1)] mount_invariants(2) by blast
  show ?thesis
    using t assms(2) set_selected_keeps_fetches [of s a]
    by (simp add: loadData_settle_success loadData_settle_failure)
qed

text \<open>
  The theorem after the wallets \<^verbatim>\<open>["0xA", "0xB"]\<close> arrived and \<^verbatim>\<open>"0xB"\<close> was selected:
  the request for \<^verbatim>\<open>"0xA"\<close> is still in flight and writes when it settles.
\<close>

theorem superseded_fetch_still_writes_witness:
  "\<exists>s s'. run [WalletsSettled (Fulfilled (Some \<lparr>resp_wallets = Some [''0xA'', ''0xB'']\<rparr>)),
               SetSelectedWallet ''0xB'']
            (mount :: ((string \<times> int) list, string) engine) = Some s \<and>
          selectedWallet s = ''0xB'' \<and> ''0xA'' \<in> set (dataFetches s) \<and>
          step (DataSettled ''0xA'' SummaryFirst (Fulfilled (Some [(''equity'', 100)]))
                 (Fulfilled (Some \<lparr>items = Some [''fill-of-A'']\<rparr>))) s = Some s' \<and>
          selectedWallet s' = ''0xB'' \<and> summary s' = Some [(''equity'', 100)] \<and>
          fills s' = [''fill-of-A''] \<and> loading s' = False"
proof -
  define s :: "((string \<times> int) list, string) engine" where
    "s = \<lparr>wallets = [''0xA'', ''0xB''], selectedWallet = ''0xB'', summary = None, fills = [],
          loading = True, error = [], clock = 0,
          timer = Some \<lparr>target = ''0xB'', due = 15000\<rparr>, walletFetches = 0,
          dataFetches = [''0xA'', ''0xB'']\<rparr>"
  have r: "run [WalletsSettled (Fulfilled (Some \<lparr>resp_wallets = Some [''0xA'', ''0xB'']\<rparr>)),
               SetSelectedWallet ''0xB''] mount = Some s"
    by (simp add: engine_defs Let_def s_def)
  have m: "''0xA'' \<in> set (dataFetches s)"
    by (simp add: s_def)
  from superseded_fetch_still_writes [OF r m, of "[]" SummaryFirst
      "Fulfilled (Some [(''equity'', 100)])" "Fulfilled (Some \<lparr>items = Some [''fill-of-A'']\<rparr>)"]
  obtain s' where
    "step (DataSettled ''0xA'' SummaryFirst (Fulfilled (Some [(''equity'', 100)]))
                 (Fulfilled (Some \<lparr>items = Some [''fill-of-A'']\<rparr>))) s = Some s'"
    "selectedWallet s' = selectedWallet s" "summary s' = Some [(''equity'', 100)]"
    "fills s' = [''fill-of-A'']" "loading s' = False"
    by auto
  moreover have "selectedWallet s = ''0xB''" by (simp add: s_def)
  ultimately show ?thesis using r m by auto
qed

text \<open>
  Claim C1 as stated fails: \<^verbatim>\<open>"0xB"\<close> is selected and its cycle has settled, then the request
  issued for \<^verbatim>\<open>"0xA"\<close> settles and the Snapshot holds the data of \<^verbatim>\<open>"0xA"\<close>.
\<close>

theorem superseded_fetch_counterexample:
  "map_option selectedWallet
     (run [WalletsSettled (Fulfilled (Some \<lparr>resp_wallets = Some [''0xA'', ''0xB'']\<rparr>)),
           SetSelectedWallet ''0xB'',
           DataSettled ''0xB'' SummaryFirst (Fulfilled (Some [(''equity'', 200 :: int)]))
             (Fulfilled (Some \<lparr>items = Some [''fill-of-B'']\<rparr>))]
        mount) = Some ''0xB'' \<and>
   map_option snapshot_of
     (run [WalletsSettled (Fulfilled (Some \<lparr>resp_wallets = Some [''0xA'', ''0xB'']\<rparr>)),
           SetSelectedWallet ''0xB'',
           DataSettled ''0xB'' SummaryFirst (Fulfilled (Some [(''equity'', 200 :: int)]))
             (Fulfilled (Some \<lparr>items = Some [''fill-of-B'']\<rparr>))]
        mount) =
     Some \<lparr>snap_summary = Some [(''equity'', 200)], snap_fills = [''fill-of-B''],
           snap_loading = False, snap_error = []\<rparr> \<and>
   map_option selectedWallet
     (run [WalletsSettled (Fulfilled (Some \<lparr>resp_wallets = Some [''0xA'', ''0xB'']\<rparr>)),
           SetSelectedWallet ''0xB'',
           DataSettled ''0xB'' SummaryFirst (Fulfilled (Some [(''equity'', 200 :: int)]))
             (Fulfilled (Some \<lparr>items = Some [''fill-of-B'']\<rparr>)),
           DataSettled ''0xA'' SummaryFirst (Fulfilled (Some [(''equity'', 100)]))
             (Fulfilled (Some \<lparr>items = Some [''fill-of-A'']\<rparr>))]
        mount) = Some ''0xB'' \<and>
   map_option snapshot_of
     (run [WalletsSettled (Fulfilled (Some \<lparr>resp_wallets = Some [''0xA'', ''0xB'']\<rparr>)),
           SetSelectedWallet ''0xB'',
           DataSettled ''0xB'' SummaryFirst (Fulfilled (Some [(''equity'', 200 :: int)]))
             (Fulfilled (Some \<lparr>items = Some [''fill-of-B'']\<rparr>)),
           DataSettled ''0xA'' SummaryFirst (Fulfilled (Some [(''equity'', 100)]))
             (Fulfilled (Some \<lparr>items = Some [''fill-of-A'']\<rparr>))]
        mount) =
     Some \<lparr>snap_summary = Some [(''equity'', 100)], snap_fills = [''fill-of-A''],
           snap_loading = False, snap_error = []\<rparr>"
  by (simp add: engine_defs Let_def)

text \<open>
  Claim C2, as amended. For a poll cycle on a non-empty address in which both requests
  fulfil and the fills body is not null, the continuation calls \<^verbatim>\<open>setSummary\<close> with the
  summary response, \<^verbatim>\<open>setFills\<close> with the \<^verbatim>\<open>items\<close> of the fills response or \<open>[]\<close> when
  there are none, and \<^verbatim>\<open>setLoading(false)\<close>, in that order, and does not write error. So
  summary, fills and loading end with those values in whatever state the continuation runs,
  and error stays as it stood: the cycle cleared it when it began, and it is empty at the
  end when no continuation that sets error ran in between. A runtime that batches renders
  the three writes as one update; one that does not renders the state after each call.
\<close>

theorem successful_poll_cycle:
  assumes "address \<noteq> []"
    and "run es (loadData_begin address s) = Some t"
    and "\<forall>e\<in>set es. \<not> writes_error e"
    and "address \<in> set (dataFetches t)"
  shows "(\<exists>s'. step (DataSettled address ord (Fulfilled sr) (Fulfilled (Some fr))) t = Some s' \<and>
              snapshot_of s' =
                \<lparr>snap_summary = sr,
                 snap_fills = (case items fr of None \<Rightarrow> [] | Some xs \<Rightarrow> xs),
                 snap_loading = False, snap_error = []\<rparr>) \<and>
         (\<exists>s'. step (DataSettled address ord (Fulfilled sr) (Fulfilled (Some fr)))
                 (loadData_begin address s) = Some s' \<and>
              snapshot_of s' =
                \<lparr>snap_summary = sr,
                 snap_fills = (case items fr of None \<Rightarrow> [] | Some xs \<Rightarrow> xs),
                 snap_loading = False, snap_error = []\<rparr>) \<and>
         snapshot_of (loadData_settle (promise_all ord (Fulfilled sr) (Fulfilled (Some fr))) u) =
           \<lparr>snap_summary = sr,
            snap_fills = (case items fr of None \<Rightarrow> [] | Some xs \<Rightarrow> xs),
            snap_loading = False, snap_error = error u\<rparr> \<and>
         settle_calls (promise_all ord (Fulfilled sr) (Fulfilled (Some fr))) =
           [SetSummary sr, SetFills (case items fr of None \<Rightarrow> [] | Some xs \<Rightarrow> xs),
            SetLoading False] \<and>
         loadData_settle (promise_all ord (Fulfilled sr) (Fulfilled (Some fr))) u =
           apply_calls (settle_calls (promise_all ord (Fulfilled sr) (Fulfilled (Some fr)))) u \<and>
         rendered Batched (settle_calls (promise_all ord (Fulfilled sr) (Fulfilled (Some fr)))) u =
           [loadData_settle (promise_all ord (Fulfilled sr) (Fulfilled (Some fr))) u] \<and>
         rendered Unbatched (settle_calls (promise_all ord (Fulfilled sr) (Fulfilled (Some fr)))) u =
           [u\<lparr>summary := sr\<rparr>,
            u\<lparr>summary := sr, fills := (case items fr of None \<Rightarrow> [] | Some xs \<Rightarrow> xs)\<rparr>,
            u\<lparr>summary := sr, fills := (case items fr of None \<Rightarrow> [] | Some xs \<Rightarrow> xs),
              loading := False\<rparr>]"
proof -
  have b: "error (loadData_begin address s) = []"
    using assms(1) by (simp add: loadData_begin_nonempty)
  have et: "error t = []"
    using run_error_empty [OF assms(2) assms(3) b] .
  have one: "\<exists>s'. step (DataSettled address ord (Fulfilled sr) (Fulfilled (Some fr))) t = Some s' \<and>
              snapshot_of s' =
                \<lparr>snap_summary = sr,
                 snap_fills = (case items fr of None \<Rightarrow> [] | Some xs \<Rightarrow> xs),
                 snap_loading = False, snap_error = []\<rparr>"
    using assms(4) et by (simp add: loadData_settle_success snapshot_of_def)
  have two: "\<exists>s'. step (DataSettled address ord (Fulfilled sr) (Fulfilled (Some fr)))
                 (loadData_begin address s) = Some s' \<and>
              snapshot_of s' =
                \<lparr>snap_summary = sr,
                 snap_fills = (case items fr of None \<Rightarrow> [] | Some xs \<Rightarrow> xs),
                 snap_loading = False, snap_error = []\<rparr>"
    using assms(1) by (simp add: loadData_begin_nonempty loadData_settle_success snapshot_of_def)
  have three: "snapshot_of (loadData_settle (promise_all ord (Fulfilled sr) (Fulfilled (Some fr))) u) =
           \<lparr>snap_summary = sr,
            snap_fills = (case items fr of None \<Rightarrow> [] | Some xs \<Rightarrow> xs),
            snap_loading = False, snap_error = error u\<rparr>"
    by (simp add: loadData_settle_success snapshot_of_def)
  have four: "settle_calls (promise_all ord (Fulfilled sr) (Fulfilled (Some fr))) =
           [SetSummary sr, SetFills (case items fr of None \<Rightarrow> [] | Some xs \<Rightarrow> xs),
            SetLoading False]"
    by (simp add: settle_calls_def)
  have five: "loadData_settle (promise_all ord (Fulfilled sr) (Fulfilled (Some fr))) u =
           apply_calls (settle_calls (promise_all ord (Fulfilled sr) (Fulfilled (Some fr)))) u"
    by (rule loadData_settle_calls)
  have calls: "settle_calls (Inr (sr, Some fr)) =
           [SetSummary sr, SetFills (case items fr of None \<Rightarrow> [] | Some xs \<Rightarrow> xs),
            SetLoading False]"
    by (simp add: settle_calls_def)
  have six: "rendered Batched (settle_calls (promise_all ord (Fulfilled sr) (Fulfilled (Some fr)))) u =
           [loadData_settle (promise_all ord (Fulfilled sr) (Fulfilled (Some fr))) u]"
    unfolding five by (simp add: rendered_def calls)
  have seven: "rendered Unbatched (settle_calls (promise_all ord (Fulfilled sr) (Fulfilled (Some fr)))) u =
           [u\<lparr>summary := sr\<rparr>,
            u\<lparr>summary := sr, fills := (case items fr of None \<Rightarrow> [] | Some xs \<Rightarrow> xs)\<rparr>,
            u\<lparr>summary := sr, fills := (case items fr of None \<Rightarrow> [] | Some xs \<Rightarrow> xs),
              loading := False\<rparr>]"
    by (simp add: rendered_def calls)
  from one two three four five six seven show ?thesis by blast
qed

text \<open>
  The scenario of the specification (summary \<^verbatim>\<open>{equity: 100}\<close>, fills \<^verbatim>\<open>{items: []}\<close>),
  with five seconds and a manual refresh between the start of the cycle and its end.
\<close>

theorem successful_poll_cycle_witness:
  "''0xA'' \<noteq> [] \<and>
   run [Elapse 5000, Refresh]
     (loadData_begin ''0xA''
        ((mount :: ((string \<times> int) list, string) engine)
           \<lparr>wallets := [''0xA'', ''0xB''], selectedWallet := ''0xA'', walletFetches := 0\<rparr>)) =
     Some \<lparr>wallets = [''0xA'', ''0xB''], selectedWallet = ''0xA'', summary = None, fills = [],
           loading = True, error = [], clock = 5000, timer = None, walletFetches = 0,
           dataFetches = [''0xA'', ''0xA'']\<rparr> \<and>
   \<not> writes_error (Elapse 5000 :: ((string \<times> int) list, string) event) \<and>
   \<not> writes_error (Refresh :: ((string \<times> int) list, string) event) \<and>
   (\<exists>s'. step (DataSettled ''0xA'' SummaryFirst (Fulfilled (Some [(''equity'', 100 :: int)]))
               (Fulfilled (Some \<lparr>items = Some ([] :: string list)\<rparr>)))
          \<lparr>wallets = [''0xA'', ''0xB''], selectedWallet = ''0xA'', summary = None, fills = [],
           loading = True, error = [], clock = 5000, timer = None, walletFetches = 0,
           dataFetches = [''0xA'', ''0xA'']\<rparr> = Some s' \<and>
        snapshot_of s' =
          \<lparr>snap_summary = Some [(''equity'', 100)], snap_fills = [], snap_loading = False,
           snap_error = []\<rparr>)"
proof -
  have ne: "''0xA'' \<noteq> []" by simp
  have r: "run [Elapse 5000, Refresh]
     (loadData_begin ''0xA''
        ((mount :: ((string \<times> int) list, string) engine)
           \<lparr>wallets := [''0xA'', ''0xB''], selectedWallet := ''0xA'', walletFetches := 0\<rparr>)) =
     Some \<lparr>wallets = [''0xA'', ''0xB''], selectedWallet = ''0xA'', summary = None, fills = [],
           loading = True, error = [], clock = 5000, timer = None, walletFetches = 0,
           dataFetches = [''0xA'', ''0xA'']\<rparr>"
    by (simp add: engine_defs)
  have nw: "\<forall>e\<in>set [Elapse 5000, Refresh :: ((string \<times> int) list, string) event]. \<not> writes_error e"
    by simp
  have m: "''0xA'' \<in> set (dataFetches
          (\<lparr>wallets = [''0xA'', ''0xB''], selectedWallet = ''0xA'', summary = None, fills = [],
           loading = True, error = [], clock = 5000, timer = None, walletFetches = 0,
           dataFetches = [''0xA'', ''0xA'']\<rparr> :: ((string \<times> int) list, string) engine))"
    by simp
  from successful_poll_cycle [OF ne r nw m, of SummaryFirst "Some [(''equity'', 100 :: int)]"
      "\<lparr>items = Some ([] :: string list)\<rparr>" "mount :: ((string \<times> int) list, string) engine"]
  have "\<exists>s'. step (DataSettled ''0xA'' SummaryFirst (Fulfilled (Some [(''equity'', 100 :: int)]))
               (Fulfilled (Some \<lparr>items = Some ([] :: string list)\<rparr>)))
          \<lparr>wallets = [''0xA'', ''0xB''], selectedWallet = ''0xA'', summary = None, fills = [],
           loading = True, error = [], clock = 5000, timer = None, walletFetches = 0,
           dataFetches = [''0xA'', ''0xA'']\<rparr> = Some s' \<and>
        snapshot_of s' =
          \<lparr>snap_summary = Some [(''equity'', 100)], snap_fills = [], snap_loading = False,
           snap_error = []\<rparr>"
    by simp
  with ne r show ?thesis by simp
qed

text \<open>
  Claim C2 as stated fails three times. The fills request fulfils with a null body (status
  204): summary is written, then reading \<^verbatim>\<open>items\<close> throws, fills keep their old value and
  error is set. A second cycle, started by a manual refresh, rejects before the first one
  fulfils: the first ends with its data and with the error of the second. And without
  batching the state after \<^verbatim>\<open>setSummary\<close>, new summary with old fills, is rendered.
\<close>

theorem successful_poll_cycle_counterexample:
  "map_option snapshot_of
     (run [WalletsSettled (Fulfilled (Some \<lparr>resp_wallets = Some [''0xA'']\<rparr>)),
           DataSettled ''0xA'' SummaryFirst (Fulfilled (Some [(''equity'', 100 :: int)]))
             (Fulfilled (Some \<lparr>items = Some [''fill-1'']\<rparr>)),
           Refresh,
           DataSettled ''0xA'' SummaryFirst (Fulfilled (Some [(''equity'', 200)])) (Fulfilled None)]
        mount) =
     Some \<lparr>snap_summary = Some [(''equity'', 200)], snap_fills = [''fill-1''], snap_loading = False,
           snap_error = ''Cannot read properties of null (reading '' @ [CHR 0x27] @ ''items'' @
                        [CHR 0x27] @ '')''\<rparr> \<and>
   map_option snapshot_of
     (run [WalletsSettled (Fulfilled (Some \<lparr>resp_wallets = Some [''0xA'']\<rparr>)),
           DataSettled ''0xA'' SummaryFirst (Fulfilled (Some [(''equity'', 100 :: int)]))
             (Fulfilled (Some \<lparr>items = Some [''fill-1'']\<rparr>)),
           Refresh,
           DataSettled ''0xA'' SummaryFirst (Fulfilled (Some [(''equity'', 200)])) (Fulfilled None)]
        mount) \<noteq>
     Some \<lparr>snap_summary = Some [(''equity'', 200)], snap_fills = [], snap_loading = False,
           snap_error = []\<rparr> \<and>
   map_option snapshot_of
     (run [WalletsSettled (Fulfilled (Some \<lparr>resp_wallets = Some [''0xA'']\<rparr>)),
           Refresh,
           DataSettled ''0xA'' SummaryFirst (Rejected (Failure (Some ''boom'')))
             (Fulfilled (Some \<lparr>items = Some [''fill-1'']\<rparr>)),
           DataSettled ''0xA'' SummaryFirst (Fulfilled (Some [(''equity'', 200 :: int)]))
             (Fulfilled (Some \<lparr>items = Some [''fill-2'']\<rparr>))]
        mount) =
     Some \<lparr>snap_summary = Some [(''equity'', 200)], snap_fills = [''fill-2''], snap_loading = False,
           snap_error = ''boom''\<rparr> \<and>
   map snapshot_of
     (rendered Unbatched
        (settle_calls (promise_all SummaryFirst (Fulfilled (Some [(''equity'', 200 :: int)]))
                         (Fulfilled (Some \<lparr>items = Some [''fill-2'']\<rparr>))))
        (mount\<lparr>wallets := [''0xA''], selectedWallet := ''0xA'', walletFetches := 0,
               summary := Some [(''equity'', 100)], fills := [''fill-1''], loading := True\<rparr>)) =
     [\<lparr>snap_summary = Some [(''equity'', 200)], snap_fills = [''fill-1''], snap_loading = True,
       snap_error = []\<rparr>,
      \<lparr>snap_summary = Some [(''equity'', 200)], snap_fills = [''fill-2''], snap_loading = True,
       snap_error = []\<rparr>,
      \<lparr>snap_summary = Some [(''equity'', 200)], snap_fills = [''fill-2''], snap_loading = False,
       snap_error = []\<rparr>]"
  by (simp add: engine_defs Let_def)

text \<open>
  Claim C3. For a poll cycle on a non-empty address in which the summary request or the
  fills request rejects, \<^verbatim>\<open>Promise.all\<close> rejects with the rejection that came first; the
  cycle ends with error set to that rejection's message (the fallback text when it has
  none), loading false, and summary and fills as they were before the cycle. The
  continuation itself writes neither summary nor fills, whatever the state it runs in.
\<close>

theorem failed_poll_cycle:
  assumes "address \<noteq> []"
    and "(\<exists>e. sr = Rejected e) \<or> (\<exists>e. fr = Rejected e)"
  shows "\<exists>err s'.
           promise_all ord sr fr = Inl err \<and>
           (\<forall>e1 y. sr = Rejected e1 \<and> fr = Fulfilled y \<longrightarrow> err = e1) \<and>
           (\<forall>x e2. sr = Fulfilled x \<and> fr = Rejected e2 \<longrightarrow> err = e2) \<and>
           (\<forall>e1 e2. sr = Rejected e1 \<and> fr = Rejected e2 \<longrightarrow>
              err = (if ord = SummaryFirst then e1 else e2)) \<and>
           step (DataSettled address ord sr fr) (loadData_begin address s) = Some s' \<and>
           error s' = message_or err ''Failed to load wallet data'' \<and>
           (\<forall>m. message err = Some m \<and> m \<noteq> [] \<longrightarrow> error s' = m) \<and>
           loading s' = False \<and> summary s' = summary s \<and> fills s' = fills s \<and>
           summary (loadData_settle (promise_all ord sr fr) t) = summary t \<and>
           fills (loadData_settle (promise_all ord sr fr) t) = fills t"
proof -
  from promise_all_rejects [OF assms(2)] obtain err where err: "promise_all ord sr fr = Inl err"
    by blast
  have ord: "(\<forall>e1 y. sr = Rejected e1 \<and> fr = Fulfilled y \<longrightarrow> err = e1) \<and>
           (\<forall>x e2. sr = Fulfilled x \<and> fr = Rejected e2 \<longrightarrow> err = e2) \<and>
           (\<forall>e1 e2. sr = Rejected e1 \<and> fr = Rejected e2 \<longrightarrow>
              err = (if ord = SummaryFirst then e1 else e2))"
    using err by (cases sr; cases fr) auto
  have msg: "\<forall>m. message err = Some m \<and> m \<noteq> [] \<longrightarrow> message_or err ''Failed to load wallet data'' = m"
    by (simp add: message_or_def)
  show ?thesis
    using assms(1) err ord msg
    by (simp add: loadData_begin_nonempty loadData_settle_failure)
qed

text \<open>The scenario of the specification: the summary arrives, the fills request fails with status 500.\<close>

theorem failed_poll_cycle_witness:
  "''0xA'' \<noteq> [] \<and>
   (\<exists>s'. step (DataSettled ''0xA'' SummaryFirst (Fulfilled (Some [(''equity'', 200 :: int)]))
               (Rejected (Failure (Some ''Request failed with status 500''))))
          (loadData_begin ''0xA''
             (mount\<lparr>wallets := [''0xA''], selectedWallet := ''0xA'', walletFetches := 0,
                    summary := Some [(''equity'', 100)], fills := [''fill-1'']\<rparr>)) = Some s' \<and>
        error s' = ''Request failed with status 500'' \<and> loading s' = False \<and>
        summary s' = Some [(''equity'', 100)] \<and> fills s' = [''fill-1''])"
proof -
  have rj: "(\<exists>e. Fulfilled (Some [(''equity'', 200 :: int)]) = Rejected e) \<or>
            (\<exists>e. (Rejected (Failure (Some ''Request failed with status 500''))
                    :: string fills_response option settled) = Rejected e)"
    by simp
  have ne: "''0xA'' \<noteq> []" by simp
  from failed_poll_cycle [OF ne rj, of SummaryFirst
      "mount\<lparr>wallets := [''0xA''], selectedWallet := ''0xA'', walletFetches := 0,
             summary := Some [(''equity'', 100)], fills := [''fill-1'']\<rparr>"
      "mount :: ((string \<times> int) list, string) engine"]
  obtain err s' where
    "promise_all SummaryFirst (Fulfilled (Some [(''equity'', 200 :: int)]))
       (Rejected (Failure (Some ''Request failed with status 500'')) :: string fills_response option settled) = Inl err"
    and st: "step (DataSettled ''0xA'' SummaryFirst (Fulfilled (Some [(''equity'', 200 :: int)]))
               (Rejected (Failure (Some ''Request failed with status 500''))))
          (loadData_begin ''0xA''
             (mount\<lparr>wallets := [''0xA''], selectedWallet := ''0xA'', walletFetches := 0,
                    summary := Some [(''equity'', 100)], fills := [''fill-1'']\<rparr>)) = Some s'"
    and r: "\<forall>m. message err = Some m \<and> m \<noteq> [] \<longrightarrow> error s' = m"
      "loading s' = False"
      "summary s' = summary (mount\<lparr>wallets := [''0xA''], selectedWallet := ''0xA'', walletFetches := 0,
                    summary := Some [(''equity'', 100 :: int)], fills := [''fill-1'']\<rparr>)"
      "fills s' = fills (mount\<lparr>wallets := [''0xA''], selectedWallet := ''0xA'', walletFetches := 0,
                    summary := Some [(''equity'', 100 :: int)], fills := [''fill-1'']\<rparr>)"
    by blast
  then have "err = Failure (Some ''Request failed with status 500'')" by simp
  with r have "error s' = ''Request failed with status 500''" "loading s' = False"
    "summary s' = Some [(''equity'', 100)]" "fills s' = [''fill-1'']"
    by simp_all
  with ne st show ?thesis by blast
qed

text \<open>
  Claim C4. When a wallet-list refresh delivers a list: a non-empty selection that is in the
  list is kept; otherwise the selection becomes the first entry of the list, or empty when
  the list is empty. The wallets become the delivered list.
\<close>

theorem wallet_list_reconciliation:
  assumes "step (WalletsSettled (Fulfilled (Some response))) s = Some s'"
    and "list = (case resp_wallets response of None \<Rightarrow> [] | Some l \<Rightarrow> l)"
  shows "wallets s' = list \<and>
         (selectedWallet s \<noteq> [] \<and> selectedWallet s \<in> set list \<longrightarrow>
            selectedWallet s' = selectedWallet s) \<and>
         (\<not> (selectedWallet s \<noteq> [] \<and> selectedWallet s \<in> set list) \<longrightarrow>
            selectedWallet s' = (case list of [] \<Rightarrow> [] | w # _ \<Rightarrow> w))"
  using assms
  by (auto simp: loadWallets_settle_def Let_def reconcile_cases split: if_splits)

text \<open>The theorem at the first render, when the wallets \<^verbatim>\<open>["0xA", "0xB"]\<close> arrive.\<close>

theorem wallet_list_reconciliation_witness:
  "wallets (loadWallets_settle (Fulfilled (Some \<lparr>resp_wallets = Some [''0xA'', ''0xB'']\<rparr>))
             ((mount :: (nat, nat) engine)\<lparr>walletFetches := 0\<rparr>)) = [''0xA'', ''0xB''] \<and>
   selectedWallet (loadWallets_settle (Fulfilled (Some \<lparr>resp_wallets = Some [''0xA'', ''0xB'']\<rparr>))
             ((mount :: (nat, nat) engine)\<lparr>walletFetches := 0\<rparr>)) = ''0xA''"
proof -
  have st: "step (WalletsSettled (Fulfilled (Some \<lparr>resp_wallets = Some [''0xA'', ''0xB'']\<rparr>)))
              (mount :: (nat, nat) engine) =
            Some (loadWallets_settle (Fulfilled (Some \<lparr>resp_wallets = Some [''0xA'', ''0xB'']\<rparr>))
                    (mount\<lparr>walletFetches := 0\<rparr>))"
    by (simp add: mount_def)
  show ?thesis
    using wallet_list_reconciliation [OF st, of "[''0xA'', ''0xB'']"]
    by (simp add: mount_def)
qed

text \<open>
  Claim C5, as amended. The selection is empty or one of the wallets after every run from
  the first render in which each call of the exposed setter passes the empty string or one
  of the wallets held at that time; and it is so after every wallet-list refresh that
  delivers a list, whatever the state before. The setter itself checks nothing.
\<close>

theorem selection_stays_valid:
  assumes "run es mount = Some s" and "setter_args_valid es mount"
  shows "selection_valid s \<and>
         selection_valid (loadWallets_settle (Fulfilled (Some response)) t)"
  using run_selection_valid [OF assms mount_invariants(1)] loadWallets_settle_valid
  by blast

text \<open>The theorem on a run with a refresh, a valid setter call and a failed reload.\<close>

theorem selection_stays_valid_witness:
  "run [WalletsSettled (Fulfilled (Some \<lparr>resp_wallets = Some [''0xA'', ''0xB'']\<rparr>)),
        SetSelectedWallet ''0xB'', ReloadWallets, WalletsSettled (Rejected (Failure None))]
     (mount :: ((string \<times> int) list, string) engine) =
     Some \<lparr>wallets = [''0xA'', ''0xB''], selectedWallet = ''0xB'', summary = None, fills = [],
           loading = True, error = ''Failed to load wallets'', clock = 0,
           timer = Some \<lparr>target = ''0xB'', due = 15000\<rparr>, walletFetches = 0,
           dataFetches = [''0xA'', ''0xB'']\<rparr> \<and>
   setter_args_valid
     [WalletsSettled (Fulfilled (Some \<lparr>resp_wallets = Some [''0xA'', ''0xB'']\<rparr>)),
      SetSelectedWallet ''0xB'', ReloadWallets, WalletsSettled (Rejected (Failure None))]
     (mount :: ((string \<times> int) list, string) engine) \<and>
   selection_valid
     (\<lparr>wallets = [''0xA'', ''0xB''], selectedWallet = ''0xB'', summary = None, fills = [],
       loading = True, error = ''Failed to load wallets'', clock = 0,
       timer = Some \<lparr>target = ''0xB'', due = 15000\<rparr>, walletFetches = 0,
       dataFetches = [''0xA'', ''0xB'']\<rparr> :: ((string \<times> int) list, string) engine)"
proof -
  have r: "run [WalletsSettled (Fulfilled (Some \<lparr>resp_wallets = Some [''0xA'', ''0xB'']\<rparr>)),
        SetSelectedWallet ''0xB'', ReloadWallets, WalletsSettled (Rejected (Failure None))]
     (mount :: ((string \<times> int) list, string) engine) =
     Some \<lparr>wallets = [''0xA'', ''0xB''], selectedWallet = ''0xB'', summary = None, fills = [],
           loading = True, error = ''Failed to load wallets'', clock = 0,
           timer = Some \<lparr>target = ''0xB'', due = 15000\<rparr>, walletFetches = 0,
           dataFetches = [''0xA'', ''0xB'']\<rparr>"
    by (simp add: engine_defs Let_def)
  have v: "setter_args_valid
     [WalletsSettled (Fulfilled (Some \<lparr>resp_wallets = Some [''0xA'', ''0xB'']\<rparr>)),
      SetSelectedWallet ''0xB'', ReloadWallets, WalletsSettled (Rejected (Failure None))]
     (mount :: ((string \<times> int) list, string) engine)"
    by (simp add: engine_defs Let_def)
  from selection_stays_valid [OF r v] r v show ?thesis
    by blast
qed

text \<open>
  Claim C5 as stated fails: the exposed setter accepts an address that is not one of the
  wallets, before and after the wallet list has arrived.
\<close>

theorem selection_counterexample:
  "map_option selection_valid
     (run [SetSelectedWallet ''0xZ''] (mount :: ((string \<times> int) list, string) engine)) = Some False \<and>
   map_option selection_valid
     (run [WalletsSettled (Fulfilled (Some \<lparr>resp_wallets = Some [''0xA'', ''0xB'']\<rparr>)),
           SetSelectedWallet ''0xZ''] (mount :: ((string \<times> int) list, string) engine)) = Some False"
  by (simp add: engine_defs Let_def selection_valid_def)

text \<open>
  Claim C6, as amended. A manual refresh on a non-empty selection starts a poll cycle at
  once: loading is set, error cleared and the two requests for the selection are issued.
  It leaves the interval and the time as they are, so the next automatic cycle stays due
  when it was due before the refresh.
\<close>

theorem manual_refresh:
  assumes "selectedWallet s \<noteq> []"
  shows "step Refresh s =
           Some (s\<lparr>loading := True, error := [],
                   dataFetches := dataFetches s @ [selectedWallet s]\<rparr>) \<and>
         selectedWallet s \<in> set (dataFetches (refresh s)) \<and>
         timer (refresh s) = timer s \<and> clock (refresh s) = clock s \<and>
         next_automatic_cycle (refresh s) = next_automatic_cycle s"
  using assms by (simp add: refresh_def loadData_begin_nonempty next_automatic_cycle_def)

text \<open>The theorem ten seconds after \<^verbatim>\<open>"0xA"\<close> was selected.\<close>

theorem manual_refresh_witness:
  "step Refresh
     ((mount :: ((string \<times> int) list, string) engine)
        \<lparr>wallets := [''0xA''], selectedWallet := ''0xA'', clock := 10000,
         timer := Some \<lparr>target = ''0xA'', due = 15000\<rparr>, walletFetches := 0\<rparr>) =
     Some \<lparr>wallets = [''0xA''], selectedWallet = ''0xA'', summary = None, fills = [],
           loading = True, error = [], clock = 10000,
           timer = Some \<lparr>target = ''0xA'', due = 15000\<rparr>, walletFetches = 0,
           dataFetches = [''0xA'']\<rparr> \<and>
   next_automatic_cycle
     (refresh ((mount :: ((string \<times> int) list, string) engine)
        \<lparr>wallets := [''0xA''], selectedWallet := ''0xA'', clock := 10000,
         timer := Some \<lparr>target = ''0xA'', due = 15000\<rparr>, walletFetches := 0\<rparr>)) = Some 15000"
proof -
  have ne: "selectedWallet
     ((mount :: ((string \<times> int) list, string) engine)
        \<lparr>wallets := [''0xA''], selectedWallet := ''0xA'', clock := 10000,
         timer := Some \<lparr>target = ''0xA'', due = 15000\<rparr>, walletFetches := 0\<rparr>) \<noteq> []"
    by simp
  from manual_refresh [OF ne] show ?thesis
    by (simp add: mount_def next_automatic_cycle_def)
qed

text \<open>
  Claim C6 as stated fails: \<^verbatim>\<open>"0xA"\<close> is selected at time 0 and refreshed by hand at
  10000 ms; the interval stays due at 15000 ms, not at 25000 ms, and its callback runs then.
\<close>

theorem manual_refresh_counterexample:
  "map_option clock
     (run [WalletsSettled (Fulfilled (Some \<lparr>resp_wallets = Some [''0xA'']\<rparr>)),
           Elapse 10000, Refresh] (mount :: ((string \<times> int) list, string) engine)) = Some 10000 \<and>
   map_option next_automatic_cycle
     (run [WalletsSettled (Fulfilled (Some \<lparr>resp_wallets = Some [''0xA'']\<rparr>)),
           Elapse 10000, Refresh] (mount :: ((string \<times> int) list, string) engine)) =
     Some (Some 15000) \<and>
   (15000 :: nat) \<noteq> 10000 + REFRESH_INTERVAL \<and>
   map_option clock
     (run [WalletsSettled (Fulfilled (Some \<lparr>resp_wallets = Some [''0xA'']\<rparr>)),
           Elapse 10000, Refresh, Elapse 5000, Tick]
        (mount :: ((string \<times> int) list, string) engine)) = Some 15000 \<and>
   map_option dataFetches
     (run [WalletsSettled (Fulfilled (Some \<lparr>resp_wallets = Some [''0xA'']\<rparr>)),
           Elapse 10000, Refresh, Elapse 5000, Tick]
        (mount :: ((string \<times> int) list, string) engine)) = Some [''0xA'', ''0xA'', ''0xA'']"
  by (simp add: engine_defs Let_def)

text \<open>
  Claim C7, as amended. When a non-empty selection becomes empty, the interval is cleared
  (no automatic cycle can follow), no request is issued, and loading and error are left as
  they are: nothing is reported as an error. A poll cycle called with the empty address
  sets summary to null and fills to \<open>[]\<close>, writes nothing else and issues no request.
\<close>

theorem selection_becomes_empty:
  assumes "selectedWallet s \<noteq> []"
  shows "step (SetSelectedWallet []) s = Some (set_selected [] s) \<and>
         selectedWallet (set_selected [] s) = [] \<and> timer (set_selected [] s) = None \<and>
         step Tick (set_selected [] s) = None \<and>
         dataFetches (set_selected [] s) = dataFetches s \<and>
         walletFetches (set_selected [] s) = walletFetches s \<and>
         wallets (set_selected [] s) = wallets s \<and>
         loading (set_selected [] s) = loading s \<and> error (set_selected [] s) = error s \<and>
         loadData_begin [] t = t\<lparr>summary := None, fills := []\<rparr>"
  using assms
  by (simp add: set_selected_def selection_effect_def tick_def loadData_begin_def)

text \<open>The theorem when \<^verbatim>\<open>"0xA"\<close> is deselected while its cycle is in flight after a failure.\<close>

theorem selection_becomes_empty_witness:
  "step (SetSelectedWallet [])
     ((mount :: ((string \<times> int) list, string) engine)
        \<lparr>wallets := [''0xA''], selectedWallet := ''0xA'', loading := True,
         timer := Some \<lparr>target = ''0xA'', due = 15000\<rparr>, walletFetches := 0,
         dataFetches := [''0xA'']\<rparr>) =
     Some (set_selected []
       ((mount :: ((string \<times> int) list, string) engine)
        \<lparr>wallets := [''0xA''], selectedWallet := ''0xA'', loading := True,
         timer := Some \<lparr>target = ''0xA'', due = 15000\<rparr>, walletFetches := 0,
         dataFetches := [''0xA'']\<rparr>)) \<and>
   timer (set_selected []
       ((mount :: ((string \<times> int) list, string) engine)
        \<lparr>wallets := [''0xA''], selectedWallet := ''0xA'', loading := True,
         timer := Some \<lparr>target = ''0xA'', due = 15000\<rparr>, walletFetches := 0,
         dataFetches := [''0xA'']\<rparr>)) = None \<and>
   dataFetches (set_selected []
       ((mount :: ((string \<times> int) list, string) engine)
        \<lparr>wallets := [''0xA''], selectedWallet := ''0xA'', loading := True,
         timer := Some \<lparr>target = ''0xA'', due = 15000\<rparr>, walletFetches := 0,
         dataFetches := [''0xA'']\<rparr>)) = [''0xA''] \<and>
   loading (set_selected []
       ((mount :: ((string \<times> int) list, string) engine)
        \<lparr>wallets := [''0xA''], selectedWallet := ''0xA'', loading := True,
         timer := Some \<lparr>target = ''0xA'', due = 15000\<rparr>, walletFetches := 0,
         dataFetches := [''0xA'']\<rparr>)) = True"
proof -
  have ne: "selectedWallet
     ((mount :: ((string \<times> int) list, string) engine)
        \<lparr>wallets := [''0xA''], selectedWallet := ''0xA'', loading := True,
         timer := Some \<lparr>target = ''0xA'', due = 15000\<rparr>, walletFetches := 0,
         dataFetches := [''0xA'']\<rparr>) \<noteq> []"
    by simp
  from selection_becomes_empty [OF ne, where t = "mount :: ((string \<times> int) list, string) engine"]
  show ?thesis
    by (simp add: mount_def)
qed

text \<open>
  Claim C7 as stated fails: \<^verbatim>\<open>"0xA"\<close> has data and a cycle in flight when the selection
  becomes empty; summary, fills and loading keep their values instead of the defaults of the
  first render.
\<close>

theorem selection_becomes_empty_counterexample:
  "map_option selectedWallet
     (run [WalletsSettled (Fulfilled (Some \<lparr>resp_wallets = Some [''0xA'']\<rparr>)),
           DataSettled ''0xA'' SummaryFirst (Fulfilled (Some [(''equity'', 100 :: int)]))
             (Fulfilled (Some \<lparr>items = Some [''fill-1'']\<rparr>)),
           Refresh,
           SetSelectedWallet []] mount) = Some [] \<and>
   map_option snapshot_of
     (run [WalletsSettled (Fulfilled (Some \<lparr>resp_wallets = Some [''0xA'']\<rparr>)),
           DataSettled ''0xA'' SummaryFirst (Fulfilled (Some [(''equity'', 100 :: int)]))
             (Fulfilled (Some \<lparr>items = Some [''fill-1'']\<rparr>)),
           Refresh,
           SetSelectedWallet []] mount) =
     Some \<lparr>snap_summary = Some [(''equity'', 100)], snap_fills = [''fill-1''],
           snap_loading = True, snap_error = []\<rparr> \<and>
   snapshot_of (mount :: ((string \<times> int) list, string) engine) =
     \<lparr>snap_summary = None, snap_fills = [], snap_loading = False, snap_error = []\<rparr>"
  by (simp add: engine_defs Let_def)

text \<open>
  Claim C9. When the wallet-list request fails, the wallets and the selection stay exactly
  as they were, as does everything else but error, which becomes the failure's message, or
  \<^verbatim>\<open>"Failed to load wallets"\<close> when the failure carries none.
\<close>

theorem failed_wallet_list_refresh:
  assumes "step (WalletsSettled (Rejected err)) s = Some s'"
  shows "wallets s' = wallets s \<and> selectedWallet s' = selectedWallet s \<and>
         summary s' = summary s \<and> fills s' = fills s \<and> loading s' = loading s \<and>
         timer s' = timer s \<and> dataFetches s' = dataFetches s \<and>
         error s' = (case message err of
                       None \<Rightarrow> ''Failed to load wallets''
                     | Some m \<Rightarrow> if m = [] then ''Failed to load wallets'' else m)"
  using assms by (auto simp: loadWallets_settle_def message_or_def split: if_splits)

text \<open>The theorem when a reload fails without a message while \<^verbatim>\<open>"0xA"\<close> is selected.\<close>

theorem failed_wallet_list_refresh_witness:
  "step (WalletsSettled (Rejected (Failure None)))
     ((mount :: ((string \<times> int) list, string) engine)
        \<lparr>wallets := [''0xA'', ''0xB''], selectedWallet := ''0xA''\<rparr>) =
     Some ((mount :: ((string \<times> int) list, string) engine)
        \<lparr>wallets := [''0xA'', ''0xB''], selectedWallet := ''0xA'', walletFetches := 0,
         error := ''Failed to load wallets''\<rparr>) \<and>
   wallets ((mount :: ((string \<times> int) list, string) engine)
        \<lparr>wallets := [''0xA'', ''0xB''], selectedWallet := ''0xA'', walletFetches := 0,
         error := ''Failed to load wallets''\<rparr>) = [''0xA'', ''0xB''] \<and>
   selectedWallet ((mount :: ((string \<times> int) list, string) engine)
        \<lparr>wallets := [''0xA'', ''0xB''], selectedWallet := ''0xA'', walletFetches := 0,
         error := ''Failed to load wallets''\<rparr>) = ''0xA'' \<and>
   error ((mount :: ((string \<times> int) list, string) engine)
        \<lparr>wallets := [''0xA'', ''0xB''], selectedWallet := ''0xA'', walletFetches := 0,
         error := ''Failed to load wallets''\<rparr>) = ''Failed to load wallets''"
proof -
  have st: "step (WalletsSettled (Rejected (Failure None)))
     ((mount :: ((string \<times> int) list, string) engine)
        \<lparr>wallets := [''0xA'', ''0xB''], selectedWallet := ''0xA''\<rparr>) =
     Some ((mount :: ((string \<times> int) list, string) engine)
        \<lparr>wallets := [''0xA'', ''0xB''], selectedWallet := ''0xA'', walletFetches := 0,
         error := ''Failed to load wallets''\<rparr>)"
    by (simp add: engine_defs)
  from failed_wallet_list_refresh [OF st] st show ?thesis
    by simp
qed

end
